theory Spec2Isabelle
  imports Main "HOL-Library.Word"
begin

section \<open>Run-time outcomes\<close>

text \<open>
  A Go call either returns or panics. The panics that the two proof modules can reach are
  a nil pointer dereference, an integer division by zero (\<open>big.Int.Mod\<close> with a zero
  modulus) and the square root of a negative number (\<open>big.Int.Sqrt\<close>).
\<close>

datatype panic = NilPointerDereference | DivisionByZero | SqrtOfNegative

datatype 'a outcome = Panic panic | Return 'a

definition and_then :: "'a outcome \<Rightarrow> ('a \<Rightarrow> 'b outcome) \<Rightarrow> 'b outcome" where
  "and_then m f = (case m of Panic p \<Rightarrow> Panic p | Return x \<Rightarrow> f x)"

section \<open>Arbitrary-precision integers (math/big)\<close>

text \<open>
  A \<open>*big.Int\<close> is a pointer: \<open>None\<close> is nil, \<open>Some x\<close> points to the integer \<open>x\<close>.
  The operations follow the documentation of Go's \<open>math/big\<close>.
\<close>

type_synonym bigInt = "int option"

text \<open>\<open>x.Cmp(y)\<close>: equal pointers compare equal without being read (so nil against nil
  is 0); otherwise both are read.\<close>

definition big_Cmp :: "bigInt \<Rightarrow> bigInt \<Rightarrow> int outcome" where
  "big_Cmp x y =
     (case (x, y) of
        (None, None) \<Rightarrow> Return 0
      | (Some a, Some b) \<Rightarrow> Return (if a < b then - 1 else if a = b then 0 else 1)
      | _ \<Rightarrow> Panic NilPointerDereference)"

text \<open>\<open>new(big.Int).Mul(x, y)\<close>, \<open>Add\<close> and \<open>Sub\<close> read both operands.\<close>

definition big_Mul :: "bigInt \<Rightarrow> bigInt \<Rightarrow> int outcome" where
  "big_Mul x y =
     (case (x, y) of (Some a, Some b) \<Rightarrow> Return (a * b) | _ \<Rightarrow> Panic NilPointerDereference)"

definition big_Add :: "bigInt \<Rightarrow> bigInt \<Rightarrow> int outcome" where
  "big_Add x y =
     (case (x, y) of (Some a, Some b) \<Rightarrow> Return (a + b) | _ \<Rightarrow> Panic NilPointerDereference)"

definition big_Sub :: "bigInt \<Rightarrow> bigInt \<Rightarrow> int outcome" where
  "big_Sub x y =
     (case (x, y) of (Some a, Some b) \<Rightarrow> Return (a - b) | _ \<Rightarrow> Panic NilPointerDereference)"

text \<open>\<open>z.Mod(x, m)\<close> is the Euclidean modulus, in \<open>[0, |m|)\<close>; it panics when \<open>m\<close> is 0.\<close>

definition big_Mod :: "int \<Rightarrow> int \<Rightarrow> int outcome" where
  "big_Mod x m = (if m = 0 then Panic DivisionByZero else Return (x mod \<bar>m\<bar>))"

text \<open>\<open>z.Sqrt(x)\<close> is the largest integer whose square is at most \<open>x\<close>; it panics when
  \<open>x\<close> is negative.\<close>

function isqrt :: "int \<Rightarrow> int" where
  "isqrt n =
     (if n < 2 then n
      else let r = 2 * isqrt (n div 4) in if (r + 1) * (r + 1) \<le> n then r + 1 else r)"
  by pat_completeness auto
termination
  by (relation "measure nat") auto

declare isqrt.simps [simp del]

definition big_Sqrt :: "int \<Rightarrow> int outcome" where
  "big_Sqrt x = (if x < 0 then Panic SqrtOfNegative else Return (isqrt x))"

text \<open>Square-and-multiply, reducing after every product; with modulus 0 nothing is
  reduced (\<open>a mod 0 = a\<close>).\<close>

function modpow :: "int \<Rightarrow> int \<Rightarrow> int \<Rightarrow> int" where
  "modpow x y m =
     (if y \<le> 0 then 1 mod m
      else let h = modpow x (y div 2) m; h2 = (h * h) mod m
           in if even y then h2 else (h2 * x) mod m)"
  by pat_completeness auto
termination
  by (relation "measure (\<lambda>(x, y, m). nat y)") auto

declare modpow.simps [simp del]

text \<open>\<open>z.ModInverse(g, n)\<close> for \<open>n > 0\<close>: the inverse of \<open>g\<close> in the ring of integers
  modulo \<open>n\<close>, in \<open>[0, n)\<close>, and nil when \<open>g\<close> and \<open>n\<close> are not relatively prime.\<close>

definition big_ModInverse :: "int \<Rightarrow> int \<Rightarrow> int option" where
  "big_ModInverse g n = List.find (\<lambda>z. (g * z) mod n = 1 mod n) [0..n - 1]"

text \<open>\<open>z.Exp(x, y, m)\<close> is \<open>x ** y mod |m|\<close>. With \<open>m\<close> zero it is \<open>x ** y\<close>, and 1 when
  \<open>y \<le> 0\<close>. With \<open>m\<close> non-zero and \<open>y\<close> negative, nil is returned when \<open>x\<close> has no
  inverse modulo \<open>m\<close>; otherwise \<open>Int.exp\<close> raises the inverse of \<open>x\<close> to the power \<open>|y|\<close>
  modulo \<open>|m|\<close> and then, as for every result, takes the sign from the original \<open>x\<close>:
  when \<open>x\<close> is negative, \<open>y\<close> is odd and the power \<open>z\<close> is not zero, it returns
  \<open>|m| - z\<close> (so \<open>Exp(-5, -1, 9)\<close> is 2, although the inverse of \<open>-5\<close> modulo 9 is 7).
  For a non-negative \<open>y\<close> the same rule gives the Euclidean residue of \<open>x ** y\<close>.\<close>

definition big_Exp :: "int \<Rightarrow> int \<Rightarrow> int \<Rightarrow> bigInt" where
  "big_Exp x y m =
     (if y < 0 then
        (if m = 0 then Some 1
         else (case big_ModInverse x \<bar>m\<bar> of
                 None \<Rightarrow> None
               | Some i \<Rightarrow>
                   (let z = modpow i (- y) \<bar>m\<bar>
                    in Some (if z \<noteq> 0 \<and> x < 0 \<and> odd y then \<bar>m\<bar> - z else z))))
      else Some (modpow x y \<bar>m\<bar>))"

text \<open>\<open>x.Bytes()\<close> is the absolute value of \<open>x\<close> as a big-endian byte slice without
  leading zero bytes (empty for 0); \<open>z.SetBytes(buf)\<close> reads a big-endian unsigned
  integer.\<close>

function abs_bytes :: "int \<Rightarrow> 8 word list" where
  "abs_bytes n = (if n \<le> 0 then [] else abs_bytes (n div 256) @ [word_of_int (n mod 256)])"
  by pat_completeness auto
termination
  by (relation "measure nat") auto

declare abs_bytes.simps [simp del]

definition big_Bytes :: "int \<Rightarrow> 8 word list" where
  "big_Bytes x = abs_bytes \<bar>x\<bar>"

definition big_SetBytes :: "8 word list \<Rightarrow> int" where
  "big_SetBytes buf = foldl (\<lambda>acc b. acc * 256 + uint b) 0 buf"

section \<open>Helpers of package common\<close>

text \<open>
  Package common is not among the source files. The helpers that the two proof modules
  call are modelled from what the spec says of them.
\<close>

text \<open>Modelled from the spec: \<open>common.ModInt(m).Exp(x, y)\<close>, exponentiation modulo \<open>m\<close>
  (missing: package common). It is taken as \<open>big.Int.Exp\<close> with modulus \<open>m\<close>, so a
  negative exponent goes through the modular inverse, the result is nil when there is
  none, and a nil operand is a nil dereference.\<close>

definition ModInt_Exp :: "int \<Rightarrow> bigInt \<Rightarrow> bigInt \<Rightarrow> bigInt outcome" where
  "ModInt_Exp m x y =
     (case (x, y) of
        (Some a, Some b) \<Rightarrow> Return (big_Exp a b m)
      | _ \<Rightarrow> Panic NilPointerDereference)"

text \<open>Modelled from the spec: \<open>common.ModInt(m).Mul(x, y)\<close>, multiplication modulo \<open>m\<close>
  (missing: package common). It is taken as \<open>big.Int.Mul\<close> followed by \<open>big.Int.Mod\<close>.\<close>

definition ModInt_Mul :: "int \<Rightarrow> bigInt \<Rightarrow> bigInt \<Rightarrow> int outcome" where
  "ModInt_Mul m x y = and_then (big_Mul x y) (\<lambda>i. big_Mod i m)"

text \<open>Modelled from the spec: \<open>common.IsInInterval(b, bound)\<close>, membership of \<open>b\<close> in
  \<open>[0, bound)\<close> (missing: package common).\<close>

definition IsInInterval :: "int \<Rightarrow> int \<Rightarrow> bool" where
  "IsInInterval b bound \<longleftrightarrow> b < bound \<and> 0 \<le> b"

text \<open>Modelled from the spec: \<open>common.NonEmptyMultiBytes(bzs, expectLen)\<close>, which holds
  when the number of parts is the expected one and no part is empty (missing: package
  common).\<close>

definition NonEmptyMultiBytes :: "8 word list list \<Rightarrow> nat \<Rightarrow> bool" where
  "NonEmptyMultiBytes bzs expectLen \<longleftrightarrow> length bzs = expectLen \<and> [] \<notin> set bzs"

text \<open>
  Modelled from the spec: the Fiat-Shamir challenge, \<open>common.SHA512_256i\<close> followed by
  \<open>common.RejectionSample\<close> (missing: package common), is a deterministic function of the
  group order \<open>q\<close> and of the ordered sequence of integers, with values in \<open>[0, q)\<close>. It is
  a parameter \<open>chal\<close> of every operation that derives a challenge.
\<close>

type_synonym challenge = "int \<Rightarrow> int list \<Rightarrow> int"

text \<open>Modelled from the spec: the contract of the challenge function, values in
  \<open>[0, q)\<close> for a group order \<open>q\<close> (missing: package common).\<close>

definition challenge_ok :: "challenge \<Rightarrow> bool" where
  "challenge_ok chal \<longleftrightarrow> (\<forall>q xs. 0 < q \<longrightarrow> 0 \<le> chal q xs \<and> chal q xs < q)"

text \<open>Modelled from the spec: the call \<open>RejectionSample(q, SHA512_256i(xs...))\<close> on
  pointers (missing: package common). The spec gives the hash no meaning on a missing
  integer; it is taken as a nil dereference.\<close>

definition derive_challenge :: "challenge \<Rightarrow> int \<Rightarrow> bigInt list \<Rightarrow> int outcome" where
  "derive_challenge chal q xs =
     (if None \<in> set xs then Panic NilPointerDereference
      else Return (chal q (map the xs)))"

text \<open>A sample challenge function that meets the contract, for running the operations on
  concrete inputs.\<close>

definition sum_challenge :: challenge where
  "sum_challenge q xs = sum_list xs mod q"

section \<open>The factorization proof (crypto/facproof/proof.go)\<close>

text \<open>An \<open>elliptic.Curve\<close> is consumed only through its group order \<open>Params().N\<close>.\<close>

datatype Curve = Curve (Params_N: int)

record ProofFac =
  P :: bigInt
  Q :: bigInt
  A :: bigInt
  B :: bigInt
  T :: bigInt
  Sigma :: bigInt
  Z1 :: bigInt
  Z2 :: bigInt
  W1 :: bigInt
  W2 :: bigInt
  V :: bigInt

definition ProofFacBytesParts :: nat where
  "ProofFacBytesParts = 11"

text \<open>\<open>rangeParameter = 1 << 15\<close>.\<close>

definition rangeParameter :: int where
  "rangeParameter = push_bit 15 1"

text \<open>The two errors that the constructors return: \<open>errors.New("ProveFac constructor
  received nil value(s)")\<close> and \<open>fmt.Errorf("expected %d byte parts to construct
  ProofFac", ProofFacBytesParts)\<close>.\<close>

datatype error = ErrNilValues | ErrByteParts nat

text \<open>
  Modelled from the spec: the sampler, \<open>common.GetRandomPositiveInt\<close> and
  \<open>common.GetRandomPositiveRelativelyPrimeInt\<close> (missing: package common), gives an integer
  in \<open>[0, bound)\<close>, for the second one also relatively prime to the bound. The eight
  integers that one run of \<open>NewProof\<close> draws are an input of the model.
\<close>

record fac_samples =
  smp_alpha :: int
  smp_beta :: int
  smp_mu :: int
  smp_nu :: int
  smp_sigma :: int
  smp_r :: int
  smp_x :: int
  smp_y :: int

text \<open>Modelled from the spec: an honest run of the sampler (missing: package common) for
  the bounds that \<open>NewProof\<close> computes on lines 41 to 48: each integer lies in its interval
  \<open>[0, bound)\<close>, and \<open>r\<close> is relatively prime to its bound.\<close>

definition honest_samples :: "int \<Rightarrow> int \<Rightarrow> int \<Rightarrow> fac_samples \<Rightarrow> bool" where
  "honest_samples q N0 NCap rnd \<longleftrightarrow>
     (let sqrtN0 = isqrt N0;
          leSqrtN0 = rangeParameter * q * sqrtN0;
          lNCap = rangeParameter * NCap;
          lN0NCap = lNCap * N0;
          leN0NCap = lN0NCap * q;
          leNCap = lNCap * q
      in 0 \<le> N0
       \<and> IsInInterval (smp_alpha rnd) leSqrtN0 \<and> IsInInterval (smp_beta rnd) leSqrtN0
       \<and> IsInInterval (smp_mu rnd) lNCap \<and> IsInInterval (smp_nu rnd) lNCap
       \<and> IsInInterval (smp_sigma rnd) lN0NCap
       \<and> IsInInterval (smp_r rnd) leN0NCap \<and> gcd (smp_r rnd) leN0NCap = 1
       \<and> IsInInterval (smp_x rnd) leNCap \<and> IsInInterval (smp_y rnd) leNCap)"

text \<open>The recurring pair of statements \<open>X := m.Exp(a, b); X = m.Mul(X, m.Exp(c, d))\<close>.\<close>

definition ExpMulExp :: "int \<Rightarrow> bigInt \<Rightarrow> bigInt \<Rightarrow> bigInt \<Rightarrow> bigInt \<Rightarrow> int outcome" where
  "ExpMulExp m a b c d =
     and_then (ModInt_Exp m a b) (\<lambda>u.
     and_then (ModInt_Exp m c d) (\<lambda>v.
     ModInt_Mul m u v))"

text \<open>\<open>NewProof\<close> after its nil check (lines 40 to 102), on the integers behind the seven
  pointers.\<close>

definition NewProof_body ::
  "challenge \<Rightarrow> fac_samples \<Rightarrow> int \<Rightarrow> int \<Rightarrow> int \<Rightarrow> int \<Rightarrow> int \<Rightarrow> int \<Rightarrow> int \<Rightarrow> ProofFac outcome"
where
  "NewProof_body chal rnd q N0 NCap s t N0p N0q =
     and_then (big_Sqrt N0) (\<lambda>sqrtN0.
     let alpha = smp_alpha rnd; beta = smp_beta rnd; mu = smp_mu rnd; nu = smp_nu rnd;
         sigma = smp_sigma rnd; r = smp_r rnd; x = smp_x rnd; y = smp_y rnd
     in
     and_then (ExpMulExp NCap (Some s) (Some N0p) (Some t) (Some mu)) (\<lambda>p.
     and_then (ExpMulExp NCap (Some s) (Some N0q) (Some t) (Some nu)) (\<lambda>q'.
     and_then (ExpMulExp NCap (Some s) (Some alpha) (Some t) (Some x)) (\<lambda>a.
     and_then (ExpMulExp NCap (Some s) (Some beta) (Some t) (Some y)) (\<lambda>b.
     and_then (ExpMulExp NCap (Some q') (Some alpha) (Some t) (Some r)) (\<lambda>t'.
     and_then (derive_challenge chal q
        [Some N0, Some NCap, Some s, Some t, Some p, Some q', Some a, Some b, Some t',
         Some sigma]) (\<lambda>e.
     let z1 = e * N0p + alpha;
         z2 = e * N0q + beta;
         w1 = e * mu + x;
         w2 = e * nu + y;
         v = e * (sigma - nu * N0p) + r
     in Return \<lparr>P = Some p, Q = Some q', A = Some a, B = Some b, T = Some t',
                 Sigma = Some sigma, Z1 = Some z1, Z2 = Some z2, W1 = Some w1,
                 W2 = Some w2, V = Some v\<rparr>)))))))"

definition NewProof ::
  "challenge \<Rightarrow> fac_samples \<Rightarrow> Curve option \<Rightarrow> bigInt \<Rightarrow> bigInt \<Rightarrow> bigInt \<Rightarrow> bigInt \<Rightarrow>
     bigInt \<Rightarrow> bigInt \<Rightarrow> (ProofFac option \<times> error option) outcome"
where
  "NewProof chal rnd ec N0 NCap s t N0p N0q =
     (if ec = None \<or> N0 = None \<or> NCap = None \<or> s = None \<or> t = None \<or> N0p = None
         \<or> N0q = None
      then Return (None, Some ErrNilValues)
      else and_then
             (NewProof_body chal rnd (Params_N (the ec)) (the N0) (the NCap) (the s) (the t)
                (the N0p) (the N0q))
             (\<lambda>pf. Return (Some pf, None)))"

definition NewProofFromBytes :: "8 word list list \<Rightarrow> ProofFac option \<times> error option" where
  "NewProofFromBytes bzs =
     (if \<not> NonEmptyMultiBytes bzs ProofFacBytesParts
      then (None, Some (ErrByteParts ProofFacBytesParts))
      else (Some \<lparr>P = Some (big_SetBytes (bzs ! 0)),
                   Q = Some (big_SetBytes (bzs ! 1)),
                   A = Some (big_SetBytes (bzs ! 2)),
                   B = Some (big_SetBytes (bzs ! 3)),
                   T = Some (big_SetBytes (bzs ! 4)),
                   Sigma = Some (big_SetBytes (bzs ! 5)),
                   Z1 = Some (big_SetBytes (bzs ! 6)),
                   Z2 = Some (big_SetBytes (bzs ! 7)),
                   W1 = Some (big_SetBytes (bzs ! 8)),
                   W2 = Some (big_SetBytes (bzs ! 9)),
                   V = Some (big_SetBytes (bzs ! 10))\<rparr>, None))"

definition ValidateBasic :: "ProofFac \<Rightarrow> bool" where
  "ValidateBasic pf \<longleftrightarrow>
     P pf \<noteq> None \<and> Q pf \<noteq> None \<and> A pf \<noteq> None \<and> B pf \<noteq> None \<and> T pf \<noteq> None
     \<and> Sigma pf \<noteq> None \<and> Z1 pf \<noteq> None \<and> Z2 pf \<noteq> None \<and> W1 pf \<noteq> None
     \<and> W2 pf \<noteq> None \<and> V pf \<noteq> None"

text \<open>Lines 145 to 195 of \<open>Verify\<close>: the sixteen checks that come before the challenge, in
  the order of the source; the first one that fails returns false.\<close>

definition Verify_checks :: "ProofFac \<Rightarrow> int \<Rightarrow> int \<Rightarrow> int \<Rightarrow> int \<Rightarrow> bool" where
  "Verify_checks pf q N0 NCap sqrtN0 =
     (let leSqrtN0 = rangeParameter * q * sqrtN0;
          lNCap = rangeParameter * NCap;
          lN0NCap = lNCap * N0;
          leN0NCap2 = push_bit 1 (lN0NCap * q);
          leNCap2 = push_bit 1 (lNCap * q)
      in if \<not> IsInInterval (the (P pf)) NCap then False
         else if \<not> IsInInterval (the (Q pf)) NCap then False
         else if \<not> IsInInterval (the (A pf)) NCap then False
         else if \<not> IsInInterval (the (B pf)) NCap then False
         else if \<not> IsInInterval (the (T pf)) NCap then False
         else if \<not> IsInInterval (the (Sigma pf)) lN0NCap then False
         else if gcd (the (P pf)) NCap \<noteq> 1 then False
         else if gcd (the (Q pf)) NCap \<noteq> 1 then False
         else if gcd (the (A pf)) NCap \<noteq> 1 then False
         else if gcd (the (B pf)) NCap \<noteq> 1 then False
         else if gcd (the (T pf)) NCap \<noteq> 1 then False
         else if \<not> IsInInterval (the (W1 pf)) leNCap2 then False
         else if \<not> IsInInterval (the (W2 pf)) leNCap2 then False
         else if \<not> IsInInterval (the (V pf)) leN0NCap2 then False
         else if \<not> IsInInterval (the (Z1 pf)) leSqrtN0 then False
         else if \<not> IsInInterval (the (Z2 pf)) leSqrtN0 then False
         else True)"

text \<open>Lines 197 to 233 of \<open>Verify\<close>: the challenge and the three equality checks.\<close>

definition Verify_equalities ::
  "challenge \<Rightarrow> ProofFac \<Rightarrow> int \<Rightarrow> int \<Rightarrow> int \<Rightarrow> int \<Rightarrow> int \<Rightarrow> bool outcome"
where
  "Verify_equalities chal pf q N0 NCap s t =
     and_then (derive_challenge chal q
        [Some N0, Some NCap, Some s, Some t, P pf, Q pf, A pf, B pf, T pf, Sigma pf]) (\<lambda>e.
     and_then (ExpMulExp NCap (Some s) (Z1 pf) (Some t) (W1 pf)) (\<lambda>lhs1.
     and_then (ModInt_Exp NCap (P pf) (Some e)) (\<lambda>pe.
     and_then (ModInt_Mul NCap (A pf) pe) (\<lambda>rhs1.
     if lhs1 \<noteq> rhs1 then Return False
     else
     and_then (ExpMulExp NCap (Some s) (Z2 pf) (Some t) (W2 pf)) (\<lambda>lhs2.
     and_then (ModInt_Exp NCap (Q pf) (Some e)) (\<lambda>qe.
     and_then (ModInt_Mul NCap (B pf) qe) (\<lambda>rhs2.
     if lhs2 \<noteq> rhs2 then Return False
     else
     and_then (ExpMulExp NCap (Some s) (Some N0) (Some t) (Sigma pf)) (\<lambda>r.
     and_then (ExpMulExp NCap (Q pf) (Z1 pf) (Some t) (V pf)) (\<lambda>lhs3.
     and_then (ModInt_Exp NCap (Some r) (Some e)) (\<lambda>re.
     and_then (ModInt_Mul NCap (T pf) re) (\<lambda>rhs3.
     if lhs3 \<noteq> rhs3 then Return False
     else Return True)))))))))))"

definition ProofFac_Verify ::
  "challenge \<Rightarrow> ProofFac option \<Rightarrow> Curve option \<Rightarrow> bigInt \<Rightarrow> bigInt \<Rightarrow> bigInt \<Rightarrow> bigInt \<Rightarrow>
     bool outcome"
where
  "ProofFac_Verify chal pf ec N0 NCap s t =
     (if pf = None \<or> \<not> ValidateBasic (the pf) \<or> ec = None \<or> N0 = None \<or> NCap = None
         \<or> s = None \<or> t = None
      then Return False
      else if sgn (the N0) \<noteq> 1 then Return False
      else if sgn (the NCap) \<noteq> 1 then Return False
      else and_then (big_Sqrt (the N0)) (\<lambda>sqrtN0.
           if \<not> Verify_checks (the pf) (Params_N (the ec)) (the N0) (the NCap) sqrtN0
           then Return False
           else Verify_equalities chal (the pf) (Params_N (the ec)) (the N0) (the NCap)
                  (the s) (the t)))"

definition ProofFac_Bytes :: "ProofFac \<Rightarrow> (8 word list list) outcome" where
  "ProofFac_Bytes pf =
     (if ValidateBasic pf
      then Return (map (\<lambda>f. big_Bytes (the f))
                     [P pf, Q pf, A pf, B pf, T pf, Sigma pf, Z1 pf, Z2 pf, W1 pf, W2 pf,
                      V pf])
      else Panic NilPointerDereference)"

section \<open>Alice's range proof (package mta)\<close>

text \<open>
  The group order \<open>tss.EC().Params().N\<close> (package tss is not among the source files) is
  the parameter \<open>q\<close> of both operations.
\<close>

text \<open>Modelled from the spec: \<open>paillier.PublicKey\<close>, consumed as opaque integers, the
  modulus \<open>N\<close> and the generator \<open>Gamma\<close> (missing: package paillier).\<close>

record PublicKey =
  N :: int
  Gamma :: int

text \<open>Modelled from the spec: \<open>pk.NSquare()\<close>, the squared modulus (missing: package
  paillier).\<close>

definition NSquare :: "PublicKey \<Rightarrow> int" where
  "NSquare pk = N pk * N pk"

text \<open>Modelled from the spec: \<open>pk.AsInts()\<close>, the key as integers for hashing (missing:
  package paillier).\<close>

definition AsInts :: "PublicKey \<Rightarrow> bigInt list" where
  "AsInts pk = [Some (N pk), Some (Gamma pk)]"

record RangeProofAlice =
  Z :: bigInt
  U :: bigInt
  W :: bigInt
  S :: bigInt
  S1 :: bigInt
  S2 :: bigInt

text \<open>Modelled from the spec: the four integers that one run of \<open>ProveRangeAlice\<close> draws
  from the sampler (missing: package random), an input of the model.\<close>

record alice_samples =
  rp_alpha :: int
  rp_beta :: int
  rp_gamma :: int
  rp_rho :: int

text \<open>Modelled from the spec: an honest run of the sampler (missing: package random) for
  the bounds that \<open>ProveRangeAlice\<close> computes on lines 22 to 37: \<open>alpha\<close> in \<open>[0, q\<^sup>3)\<close>,
  \<open>beta\<close> in \<open>[0, N)\<close> and relatively prime to \<open>N\<close>, \<open>gamma\<close> in \<open>[0, q\<^sup>3 \<cdot> NTilde)\<close> and
  \<open>rho\<close> in \<open>[0, q \<cdot> NTilde)\<close>.\<close>

definition honest_alice_samples :: "int \<Rightarrow> int \<Rightarrow> int \<Rightarrow> alice_samples \<Rightarrow> bool" where
  "honest_alice_samples q n NTilde rnd \<longleftrightarrow>
     (let q3 = q * (q * q); qNTilde = q * NTilde; q3NTilde = q3 * NTilde
      in IsInInterval (rp_alpha rnd) q3
       \<and> IsInInterval (rp_beta rnd) n \<and> gcd (rp_beta rnd) n = 1
       \<and> IsInInterval (rp_gamma rnd) q3NTilde
       \<and> IsInInterval (rp_rho rnd) qNTilde)"

definition ProveRangeAlice ::
  "challenge \<Rightarrow> int \<Rightarrow> alice_samples \<Rightarrow> PublicKey option \<Rightarrow> bigInt \<Rightarrow> bigInt \<Rightarrow> bigInt \<Rightarrow>
     bigInt \<Rightarrow> bigInt \<Rightarrow> bigInt \<Rightarrow> (RangeProofAlice option) outcome"
where
  "ProveRangeAlice chal q rnd pk c NTilde h1 h2 m r =
     (let q3 = q * (q * q) in
      and_then (big_Mul (Some q) NTilde) (\<lambda>qNTilde.
      and_then (big_Mul (Some q3) NTilde) (\<lambda>q3NTilde.
      if pk = None then Panic NilPointerDereference
      else
      let alpha = rp_alpha rnd; beta = rp_beta rnd; gamma = rp_gamma rnd; rho = rp_rho rnd;
          n = N (the pk)
      in
      and_then (ExpMulExp (the NTilde) h1 m h2 (Some rho)) (\<lambda>z.
      and_then (ExpMulExp (NSquare (the pk)) (Some (Gamma (the pk))) (Some alpha)
                  (Some beta) (Some n)) (\<lambda>u.
      and_then (ExpMulExp (the NTilde) h1 (Some alpha) h2 (Some gamma)) (\<lambda>w.
      and_then (derive_challenge chal q (AsInts (the pk) @ [c, Some z, Some u, Some w]))
        (\<lambda>e.
      and_then (ModInt_Exp n r (Some e)) (\<lambda>s0.
      and_then (ModInt_Mul n s0 (Some beta)) (\<lambda>s.
      and_then (big_Mul (Some e) m) (\<lambda>em.
      and_then (big_Add (Some em) (Some alpha)) (\<lambda>s1.
      and_then (big_Mul (Some e) (Some rho)) (\<lambda>erho.
      and_then (big_Add (Some erho) (Some gamma)) (\<lambda>s2.
      Return (Some \<lparr>Z = Some z, U = Some u, W = Some w, S = Some s, S1 = Some s1,
                     S2 = Some s2\<rparr>))))))))))))))"

text \<open>Lines 90 to 127 of \<open>Verify\<close>: the challenge and the two equality checks.\<close>

definition Alice_equalities ::
  "challenge \<Rightarrow> int \<Rightarrow> RangeProofAlice \<Rightarrow> PublicKey \<Rightarrow> int \<Rightarrow> bigInt \<Rightarrow> bigInt \<Rightarrow> bigInt \<Rightarrow>
     bool outcome"
where
  "Alice_equalities chal q pf pk NTilde h1 h2 c =
     (let N2 = N pk * N pk in
      and_then (derive_challenge chal q (AsInts pk @ [c, Z pf, U pf, W pf])) (\<lambda>e.
      and_then (big_Sub (Some 0) (Some e)) (\<lambda>minusE.
      and_then (ModInt_Exp N2 c (Some minusE)) (\<lambda>cExpMinusE.
      and_then (ModInt_Exp N2 (S pf) (Some (N pk))) (\<lambda>sExpN.
      and_then (ModInt_Exp N2 (Some (Gamma pk)) (S1 pf)) (\<lambda>gammaExpS1.
      and_then (ModInt_Mul N2 gammaExpS1 sExpN) (\<lambda>products.
      and_then (ModInt_Mul N2 (Some products) cExpMinusE) (\<lambda>products.
      and_then (big_Cmp (U pf) (Some products)) (\<lambda>cmpU.
      if cmpU \<noteq> 0 then Return False
      else
      and_then (ModInt_Exp NTilde h1 (S1 pf)) (\<lambda>h1ExpS1.
      and_then (ModInt_Exp NTilde h2 (S2 pf)) (\<lambda>h2ExpS2.
      and_then (ModInt_Exp NTilde (Z pf) (Some minusE)) (\<lambda>zExpMinusE.
      and_then (ModInt_Mul NTilde h1ExpS1 h2ExpS2) (\<lambda>products.
      and_then (ModInt_Mul NTilde (Some products) zExpMinusE) (\<lambda>products.
      and_then (big_Cmp (W pf) (Some products)) (\<lambda>cmpW.
      if cmpW \<noteq> 0 then Return False
      else Return True)))))))))))))))"

definition RangeProofAlice_Verify ::
  "challenge \<Rightarrow> int \<Rightarrow> RangeProofAlice option \<Rightarrow> PublicKey option \<Rightarrow> bigInt \<Rightarrow> bigInt \<Rightarrow>
     bigInt \<Rightarrow> bigInt \<Rightarrow> bool outcome"
where
  "RangeProofAlice_Verify chal q pf pk NTilde h1 h2 c =
     (if pf = None \<or> pk = None \<or> NTilde = None \<or> h1 = None \<or> h2 = None \<or> c = None
      then Return False
      else
      let q3 = q * (q * q) in
      and_then (big_Cmp (S1 (the pf)) (Some q3)) (\<lambda>cmp.
      if cmp = 1 then Return False
      else Alice_equalities chal q (the pf) (the pk) (the NTilde) h1 h2 c))"

section \<open>Definitions that follow the spec\<close>

text \<open>A range proof is structurally complete when all six fields are present.\<close>

definition all_fields_present :: "RangeProofAlice \<Rightarrow> bool" where
  "all_fields_present pf \<longleftrightarrow>
     Z pf \<noteq> None \<and> U pf \<noteq> None \<and> W pf \<noteq> None \<and> S pf \<noteq> None \<and> S1 pf \<noteq> None
     \<and> S2 pf \<noteq> None"

text \<open>The value of a byte sequence read as an unsigned big-endian integer.\<close>

fun unsigned_big_endian :: "8 word list \<Rightarrow> int" where
  "unsigned_big_endian [] = 0"
| "unsigned_big_endian (b # bs) = uint b * 256 ^ length bs + unsigned_big_endian bs"

text \<open>All eleven fields of a factorization proof are present and strictly positive.\<close>

definition fields_positive :: "ProofFac \<Rightarrow> bool" where
  "fields_positive pf \<longleftrightarrow>
     list_all (\<lambda>f. case f of None \<Rightarrow> False | Some v \<Rightarrow> 0 < v)
       [P pf, Q pf, A pf, B pf, T pf, Sigma pf, Z1 pf, Z2 pf, W1 pf, W2 pf, V pf]"

text \<open>The commitment \<open>s^a \<cdot> t^b mod n\<close> for non-negative exponents, and the proof that
  section 4.3 of the spec describes: steps 4 to 6 of \<open>Prove\<close> on the sampled integers.\<close>

definition commitment :: "int \<Rightarrow> int \<Rightarrow> int \<Rightarrow> int \<Rightarrow> int \<Rightarrow> int" where
  "commitment n s a t b = s ^ nat a * t ^ nat b mod n"

definition spec_proof ::
  "challenge \<Rightarrow> fac_samples \<Rightarrow> int \<Rightarrow> int \<Rightarrow> int \<Rightarrow> int \<Rightarrow> int \<Rightarrow> int \<Rightarrow> int \<Rightarrow> ProofFac"
where
  "spec_proof chal rnd q N0 NCap s t N0p N0q =
     (let p = commitment NCap s N0p t (smp_mu rnd);
          q' = commitment NCap s N0q t (smp_nu rnd);
          a = commitment NCap s (smp_alpha rnd) t (smp_x rnd);
          b = commitment NCap s (smp_beta rnd) t (smp_y rnd);
          t' = commitment NCap q' (smp_alpha rnd) t (smp_r rnd);
          e = chal q [N0, NCap, s, t, p, q', a, b, t', smp_sigma rnd]
      in \<lparr>P = Some p, Q = Some q', A = Some a, B = Some b, T = Some t',
          Sigma = Some (smp_sigma rnd),
          Z1 = Some (e * N0p + smp_alpha rnd),
          Z2 = Some (e * N0q + smp_beta rnd),
          W1 = Some (e * smp_mu rnd + smp_x rnd),
          W2 = Some (e * smp_nu rnd + smp_y rnd),
          V = Some (e * (smp_sigma rnd - smp_nu rnd * N0p) + smp_r rnd)\<rparr>)"

text \<open>The interval-membership checks and the coprimality checks of \<open>Verify\<close> as section
  4.3 of the spec lists them, with \<open>l = 2^15\<close> and the integer square root of \<open>N0\<close>.\<close>

definition spec_interval_checks :: "ProofFac \<Rightarrow> int \<Rightarrow> int \<Rightarrow> int \<Rightarrow> bool" where
  "spec_interval_checks pf q N0 NCap \<longleftrightarrow>
     (let l = 2 ^ 15; sqrtN0 = isqrt N0
      in list_all (\<lambda>x. 0 \<le> x \<and> x < NCap) (map the [P pf, Q pf, A pf, B pf, T pf])
       \<and> 0 \<le> the (Sigma pf) \<and> the (Sigma pf) < l * N0 * NCap
       \<and> list_all (\<lambda>x. 0 \<le> x \<and> x < 2 * l * q * NCap) (map the [W1 pf, W2 pf])
       \<and> 0 \<le> the (V pf) \<and> the (V pf) < 2 * l * q * N0 * NCap
       \<and> list_all (\<lambda>x. 0 \<le> x \<and> x < l * q * sqrtN0) (map the [Z1 pf, Z2 pf]))"

definition spec_coprimality_checks :: "ProofFac \<Rightarrow> int \<Rightarrow> bool" where
  "spec_coprimality_checks pf NCap \<longleftrightarrow>
     list_all (\<lambda>x. gcd x NCap = 1) (map the [P pf, Q pf, A pf, B pf, T pf])"

section \<open>Basic facts\<close>

lemma and_then_Return [simp]: "and_then (Return x) f = f x"
  by (simp add: and_then_def)

lemma and_then_Panic [simp]: "and_then (Panic p) f = Panic p"
  by (simp add: and_then_def)

lemma and_then_eq_Return:
  "and_then m f = Return y \<longleftrightarrow> (\<exists>x. m = Return x \<and> f x = Return y)"
  by (cases m) simp_all

lemma if_Return_False: "(if c then Return False else Return b) = Return (\<not> c \<and> b)"
  by simp

subsection \<open>Square root\<close>

lemma isqrt_correct: "0 \<le> n \<Longrightarrow> (isqrt n)\<^sup>2 \<le> n \<and> n < (isqrt n + 1)\<^sup>2 \<and> 0 \<le> isqrt n"
proof (induction n rule: isqrt.induct)
  case (1 n)
  show ?case
  proof (cases "n < 2")
    case True
    with "1.prems" have "n = 0 \<or> n = 1" by auto
    then show ?thesis by (subst (1 2 3) isqrt.simps) (auto simp: power2_eq_square)
  next
    case False
    define r where "r = 2 * isqrt (n div 4)"
    have ih: "(isqrt (n div 4))\<^sup>2 \<le> n div 4 \<and> n div 4 < (isqrt (n div 4) + 1)\<^sup>2
                \<and> 0 \<le> isqrt (n div 4)"
      using "1.IH" False "1.prems" by simp
    have lo: "r * r \<le> n"
    proof -
      have "4 * (isqrt (n div 4) * isqrt (n div 4)) \<le> 4 * (n div 4)"
        using ih by (simp add: power2_eq_square)
      moreover have "4 * (n div 4) \<le> n" by presburger
      ultimately show ?thesis by (simp add: r_def)
    qed
    have hi: "n < (r + 2) * (r + 2)"
    proof -
      have "n div 4 + 1 \<le> (isqrt (n div 4) + 1) * (isqrt (n div 4) + 1)"
        using ih by (simp add: power2_eq_square)
      then have "4 * (n div 4) + 4 \<le> (r + 2) * (r + 2)"
        by (simp add: r_def algebra_simps)
      moreover have "n < 4 * (n div 4) + 4" by presburger
      ultimately show ?thesis by linarith
    qed
    have r0: "0 \<le> r"
      using ih by (simp add: r_def)
    have eq: "isqrt n = (if (r + 1) * (r + 1) \<le> n then r + 1 else r)"
      using False by (subst isqrt.simps) (simp add: Let_def r_def)
    show ?thesis
      using lo hi r0 by (auto simp: eq power2_eq_square algebra_simps)
  qed
qed

subsection \<open>Modular exponentiation and multiplication\<close>

lemma modpow_eq: "0 \<le> y \<Longrightarrow> modpow x y m = x ^ nat y mod m"
proof (induction x y m rule: modpow.induct)
  case (1 x y m)
  show ?case
  proof (cases "y \<le> 0")
    case True
    with "1.prems" have "y = 0" by simp
    then show ?thesis by (simp add: modpow.simps)
  next
    case False
    define k where "k = nat (y div 2)"
    have k: "y div 2 = int k"
      using "1.prems" by (simp add: k_def)
    have ih: "modpow x (y div 2) m = x ^ k mod m"
      using "1.IH" False "1.prems" by (simp add: k_def)
    have sq: "(x ^ k mod m) * (x ^ k mod m) mod m = x ^ (2 * k) mod m"
      by (simp add: mod_mult_eq mult_2 power_add)
    show ?thesis
    proof (cases "even y")
      case True
      then have y: "nat y = 2 * k" using k by (auto elim: evenE)
      have "modpow x y m = (x ^ k mod m) * (x ^ k mod m) mod m"
        using False True ih by (subst modpow.simps) (simp add: Let_def)
      then show ?thesis using sq y by simp
    next
      case odd: False
      then have y: "nat y = Suc (2 * k)" using k "1.prems" by (auto elim!: oddE)
      have "modpow x y m = ((x ^ k mod m) * (x ^ k mod m) mod m) * x mod m"
        using False odd ih by (subst modpow.simps) (simp add: Let_def)
      also have "\<dots> = (x ^ (2 * k) mod m) * x mod m"
        by (simp only: sq)
      also have "\<dots> = x ^ (2 * k) * x mod m"
        by (simp add: mod_mult_left_eq)
      finally show ?thesis using y by (simp add: mult.commute)
    qed
  qed
qed

lemma big_Exp_nonneg: "0 \<le> y \<Longrightarrow> big_Exp x y m = Some (x ^ nat y mod \<bar>m\<bar>)"
  by (simp add: big_Exp_def modpow_eq)

lemma ModInt_Exp_Some [simp]: "ModInt_Exp m (Some a) (Some b) = Return (big_Exp a b m)"
  by (simp add: ModInt_Exp_def)

lemma ModInt_Exp_nonneg:
  "0 < m \<Longrightarrow> 0 \<le> b \<Longrightarrow> ModInt_Exp m (Some a) (Some b) = Return (Some (a ^ nat b mod m))"
  by (simp add: big_Exp_nonneg)

lemma ModInt_Mul_Some: "ModInt_Mul m (Some a) (Some b) = big_Mod (a * b) m"
  by (simp add: ModInt_Mul_def big_Mul_def)

lemma ModInt_Mul_pos: "0 < m \<Longrightarrow> ModInt_Mul m (Some a) (Some b) = Return (a * b mod m)"
  by (simp add: ModInt_Mul_Some big_Mod_def)

lemma ExpMulExp_nonneg:
  assumes "0 < m" "0 \<le> b" "0 \<le> d"
  shows "ExpMulExp m (Some a) (Some b) (Some c) (Some d) = Return (a ^ nat b * c ^ nat d mod m)"
  using assms
  by (simp add: ExpMulExp_def big_Exp_nonneg ModInt_Mul_Some big_Mod_def mod_mult_eq)

lemma ExpMulExp_commitment:
  assumes "0 < m" "0 \<le> b" "0 \<le> d"
  shows "ExpMulExp m (Some a) (Some b) (Some c) (Some d) = Return (commitment m a b c d)"
  using assms by (simp add: ExpMulExp_nonneg commitment_def)

lemma big_Exp_sign_rule: "big_Exp (- 5) (- 1) 9 = Some 2"
  by code_simp

lemma big_ModInverse_coprime:
  assumes "0 < n" "coprime g n"
  shows "\<exists>i. big_ModInverse g n = Some i"
proof -
  obtain u v where uv: "u * g + v * n = 1"
    using bezout_int [of g n] assms(2) by (auto simp: coprime_iff_gcd_eq_1)
  define z where "z = u mod n"
  have z: "z \<in> set [0..n - 1]"
    using assms(1) by (simp add: z_def)
  have "g * u = 1 - v * n"
    using uv by (simp add: algebra_simps)
  then have "(g * u) mod n = 1 mod n"
    by (simp add: mod_diff_eq [symmetric])
  then have "(g * z) mod n = 1 mod n"
    by (simp add: z_def mod_mult_right_eq)
  then have "List.find (\<lambda>z. (g * z) mod n = 1 mod n) [0..n - 1] \<noteq> None"
    using z unfolding find_None_iff by blast
  then show ?thesis
    by (auto simp: big_ModInverse_def)
qed

lemma big_Exp_returns:
  assumes "0 \<le> y \<or> coprime x m"
  shows "\<exists>v. big_Exp x y m = Some v"
proof (cases "0 \<le> y \<or> m = 0")
  case True
  then show ?thesis by (auto simp: big_Exp_def)
next
  case False
  then have "0 < \<bar>m\<bar>" "coprime x \<bar>m\<bar>"
    using assms by auto
  then obtain i where "big_ModInverse x \<bar>m\<bar> = Some i"
    using big_ModInverse_coprime by blast
  then show ?thesis
    using False by (simp add: big_Exp_def Let_def)
qed

lemma ExpMulExp_returns:
  assumes "m \<noteq> 0" "0 \<le> b \<or> coprime a m" "0 \<le> d \<or> coprime c m"
  shows "\<exists>v. ExpMulExp m (Some a) (Some b) (Some c) (Some d) = Return v"
proof -
  obtain u where u: "big_Exp a b m = Some u"
    using big_Exp_returns [OF assms(2)] by blast
  obtain w where w: "big_Exp c d m = Some w"
    using big_Exp_returns [OF assms(3)] by blast
  show ?thesis
    using assms(1) by (simp add: ExpMulExp_def u w ModInt_Mul_Some big_Mod_def)
qed

lemma big_Cmp_differs:
  "and_then (big_Cmp (Some a) (Some b)) (\<lambda>c. if c \<noteq> 0 then x else y)
     = (if a \<noteq> b then x else y)"
  by (simp add: big_Cmp_def)

subsection \<open>The challenge\<close>

lemma sum_challenge_ok: "challenge_ok sum_challenge"
  by (simp add: challenge_ok_def sum_challenge_def)

lemma derive_challenge_Some6:
  "derive_challenge chal q [Some a, Some b, Some c, Some d, Some e, Some f]
     = Return (chal q [a, b, c, d, e, f])"
  by (simp add: derive_challenge_def)

lemma derive_challenge_Some10:
  "derive_challenge chal q [Some a, Some b, Some c, Some d, Some e, Some f, Some g, Some h,
     Some i, Some j] = Return (chal q [a, b, c, d, e, f, g, h, i, j])"
  by (simp add: derive_challenge_def)

subsection \<open>Bytes\<close>

lemma foldl_horner:
  "foldl (\<lambda>acc b. acc * 256 + uint b) a bs = a * 256 ^ length bs + unsigned_big_endian bs"
  by (induction bs arbitrary: a) (simp_all add: algebra_simps)

lemma big_SetBytes_unsigned_big_endian: "big_SetBytes bs = unsigned_big_endian bs"
  using foldl_horner [of 0 bs] by (simp add: big_SetBytes_def)

lemma foldl_abs_bytes: "0 \<le> n \<Longrightarrow> foldl (\<lambda>acc b. acc * 256 + uint b) 0 (abs_bytes n) = n"
proof (induction n rule: abs_bytes.induct)
  case (1 n)
  show ?case
  proof (cases "n \<le> 0")
    case True
    with "1.prems" show ?thesis by (simp add: abs_bytes.simps)
  next
    case False
    have "uint (word_of_int (n mod 256) :: 8 word) = n mod 256"
      by (simp add: uint_word_of_int)
    then show ?thesis
      using False "1.IH" by (subst abs_bytes.simps) simp
  qed
qed

lemma SetBytes_Bytes: "0 \<le> x \<Longrightarrow> big_SetBytes (big_Bytes x) = x"
  by (simp add: big_SetBytes_def big_Bytes_def foldl_abs_bytes)

lemma Bytes_nonempty: "0 < x \<Longrightarrow> big_Bytes x \<noteq> []"
  by (subst big_Bytes_def, subst abs_bytes.simps) simp

lemma Bytes_zero: "big_Bytes 0 = []"
  by (simp add: big_Bytes_def abs_bytes.simps)

section \<open>Structural completeness of returned proofs\<close>

lemma ProveRangeAlice_complete:
  assumes "ProveRangeAlice chal q rnd pk c NTilde h1 h2 m r = Return res"
  shows "\<exists>pf. res = Some pf \<and> all_fields_present pf"
  using assms
  unfolding ProveRangeAlice_def Let_def
  by (auto simp: and_then_eq_Return all_fields_present_def split: if_splits)

lemma honest_alice_samples_pos:
  assumes "honest_alice_samples q n nt rnd"
  shows "0 < q" "0 < n" "0 < nt"
proof -
  have q3: "0 < q * (q * q)" and n: "0 < n" and qn: "0 < q * nt"
    using assms unfolding honest_alice_samples_def Let_def IsInInterval_def by linarith+
  show "0 < n" by (rule n)
  show q: "0 < q"
  proof (rule ccontr)
    assume "\<not> 0 < q"
    then have "q \<le> 0" by simp
    moreover have "0 \<le> q * q" by simp
    ultimately have "q * (q * q) \<le> 0" by (rule mult_nonpos_nonneg)
    then show False using q3 by simp
  qed
  show "0 < nt"
    using qn q by (simp add: zero_less_mult_iff)
qed

lemma ProveRangeAlice_returns_honest:
  assumes ok: "challenge_ok chal"
    and hs: "honest_alice_samples q (N pk) nt rnd"
    and m: "0 \<le> m \<or> coprime h1 nt"
  shows "\<exists>pf. ProveRangeAlice chal q rnd (Some pk) (Some c) (Some nt) (Some h1) (Some h2)
                (Some m) (Some r) = Return (Some pf)"
proof -
  note pos = honest_alice_samples_pos [OF hs]
  have nn: "0 \<le> rp_alpha rnd" "0 \<le> rp_gamma rnd" "0 \<le> rp_rho rnd"
    using hs by (simp_all add: honest_alice_samples_def Let_def IsInInterval_def)
  have e: "0 \<le> chal q xs" for xs
    using ok pos(1) by (simp add: challenge_ok_def)
  have n2: "0 < N pk * N pk"
    using pos(2) by simp
  obtain z where z: "ExpMulExp nt (Some h1) (Some m) (Some h2) (Some (rp_rho rnd)) = Return z"
    using ExpMulExp_returns [of nt m h1 "rp_rho rnd" h2] pos(3) m nn by auto
  show ?thesis
    unfolding ProveRangeAlice_def Let_def NSquare_def AsInts_def
    using pos nn n2
    by (simp add: big_Mul_def big_Add_def z ExpMulExp_nonneg derive_challenge_Some6
        big_Exp_nonneg e ModInt_Mul_pos)
qed

lemma NewProof_body_complete:
  assumes "NewProof_body chal rnd q N0 NCap s t N0p N0q = Return pf"
  shows "ValidateBasic pf"
  using assms
  unfolding NewProof_body_def Let_def
  by (auto simp: and_then_eq_Return ValidateBasic_def)

lemma NewProof_complete:
  assumes "NewProof chal rnd ec N0 NCap s t N0p N0q = Return (res, None)"
  shows "\<exists>pf. res = Some pf \<and> ValidateBasic pf"
  using assms
  unfolding NewProof_def
  by (auto simp: and_then_eq_Return NewProof_body_complete split: if_splits)

lemma NewProofFromBytes_complete:
  assumes "NewProofFromBytes bzs = (res, None)"
  shows "\<exists>pf. res = Some pf \<and> ValidateBasic pf"
  using assms
  unfolding NewProofFromBytes_def
  by (auto simp: ValidateBasic_def split: if_splits)

text \<open>
  Claim C8, as the spec states it: \<open>ProveRangeAlice\<close> always returns a non-nil proof with
  all six fields non-nil. It fails where \<open>ProveRangeAlice\<close>, which checks nothing and has
  no error result, panics and returns no value: with \<open>NTilde\<close> nil the product
  \<open>q \<cdot> NTilde\<close> dereferences it, with \<open>NTilde\<close> zero the reduction modulo \<open>NTilde\<close>
  divides by zero, and on an honest run with a negative \<open>m\<close> and a base \<open>h1 = 2\<close> that has
  no inverse modulo \<open>NTilde = 4\<close> the power \<open>h1^m\<close> is nil and the product dereferences it.
\<close>

theorem ProveRangeAlice_always_returns_counterexample:
  "ProveRangeAlice sum_challenge 7 \<lparr>rp_alpha = 1, rp_beta = 1, rp_gamma = 1, rp_rho = 1\<rparr>
     (Some \<lparr>N = 3, Gamma = 4\<rparr>) (Some 1) None (Some 2) (Some 3) (Some 1) (Some 1)
   = Panic NilPointerDereference
   \<and> ProveRangeAlice sum_challenge 7 \<lparr>rp_alpha = 1, rp_beta = 1, rp_gamma = 1, rp_rho = 1\<rparr>
       (Some \<lparr>N = 3, Gamma = 4\<rparr>) (Some 1) (Some 0) (Some 2) (Some 3) (Some 1) (Some 1)
     = Panic DivisionByZero
   \<and> honest_alice_samples 7 3 4 \<lparr>rp_alpha = 1, rp_beta = 1, rp_gamma = 1, rp_rho = 1\<rparr>
   \<and> ProveRangeAlice sum_challenge 7 \<lparr>rp_alpha = 1, rp_beta = 1, rp_gamma = 1, rp_rho = 1\<rparr>
       (Some \<lparr>N = 3, Gamma = 4\<rparr>) (Some 1) (Some 4) (Some 2) (Some 3) (Some (- 1)) (Some 1)
     = Panic NilPointerDereference"
proof (intro conjI)
  show "ProveRangeAlice sum_challenge 7
          \<lparr>rp_alpha = 1, rp_beta = 1, rp_gamma = 1, rp_rho = 1\<rparr>
          (Some \<lparr>N = 3, Gamma = 4\<rparr>) (Some 1) None (Some 2) (Some 3) (Some 1) (Some 1)
        = Panic NilPointerDereference"
    by code_simp
  show "ProveRangeAlice sum_challenge 7
          \<lparr>rp_alpha = 1, rp_beta = 1, rp_gamma = 1, rp_rho = 1\<rparr>
          (Some \<lparr>N = 3, Gamma = 4\<rparr>) (Some 1) (Some 0) (Some 2) (Some 3) (Some 1) (Some 1)
        = Panic DivisionByZero"
    by code_simp
  show "honest_alice_samples 7 3 4 \<lparr>rp_alpha = 1, rp_beta = 1, rp_gamma = 1, rp_rho = 1\<rparr>"
    by code_simp
  show "ProveRangeAlice sum_challenge 7
          \<lparr>rp_alpha = 1, rp_beta = 1, rp_gamma = 1, rp_rho = 1\<rparr>
          (Some \<lparr>N = 3, Gamma = 4\<rparr>) (Some 1) (Some 4) (Some 2) (Some 3) (Some (- 1))
          (Some 1)
        = Panic NilPointerDereference"
    by code_simp
qed

text \<open>
  Claim C8, amended. Every proof value returned to the caller is structurally complete:
  whatever \<open>ProveRangeAlice\<close> returns is a non-nil proof with all six fields non-nil, and
  it does return one for non-nil arguments on every honest run of the sampler (which
  needs \<open>q\<close>, \<open>pk.N\<close> and \<open>NTilde\<close> positive) when \<open>m\<close> is non-negative or \<open>h1\<close> is
  relatively prime to \<open>NTilde\<close>; and a proof returned without error by \<open>NewProof\<close> or by
  \<open>NewProofFromBytes\<close> is non-nil and satisfies \<open>ValidateBasic\<close>.
\<close>

theorem returned_proofs_complete:
  "(ProveRangeAlice chal q rnd pk c NTilde h1 h2 m r = Return res
      \<longrightarrow> (\<exists>pf. res = Some pf \<and> all_fields_present pf))
   \<and> (NewProof chal rnd' ec N0 NCap s t N0p N0q = Return (res', None)
      \<longrightarrow> (\<exists>pf. res' = Some pf \<and> ValidateBasic pf))
   \<and> (NewProofFromBytes bzs = (res'', None)
      \<longrightarrow> (\<exists>pf. res'' = Some pf \<and> ValidateBasic pf))
   \<and> (challenge_ok chal \<and> honest_alice_samples q (N pk') nt rnd
       \<and> (0 \<le> m' \<or> gcd h1' nt = 1)
      \<longrightarrow> (\<exists>pf. ProveRangeAlice chal q rnd (Some pk') (Some c') (Some nt) (Some h1')
                   (Some h2') (Some m') (Some r') = Return (Some pf)
                 \<and> all_fields_present pf))"
proof (intro conjI impI)
  assume "ProveRangeAlice chal q rnd pk c NTilde h1 h2 m r = Return res"
  then show "\<exists>pf. res = Some pf \<and> all_fields_present pf"
    by (rule ProveRangeAlice_complete)
next
  assume "NewProof chal rnd' ec N0 NCap s t N0p N0q = Return (res', None)"
  then show "\<exists>pf. res' = Some pf \<and> ValidateBasic pf"
    by (rule NewProof_complete)
next
  assume "NewProofFromBytes bzs = (res'', None)"
  then show "\<exists>pf. res'' = Some pf \<and> ValidateBasic pf"
    by (rule NewProofFromBytes_complete)
next
  assume h: "challenge_ok chal \<and> honest_alice_samples q (N pk') nt rnd
       \<and> (0 \<le> m' \<or> gcd h1' nt = 1)"
  then have "0 \<le> m' \<or> coprime h1' nt"
    by (simp add: coprime_iff_gcd_eq_1)
  then obtain pf where
    pf: "ProveRangeAlice chal q rnd (Some pk') (Some c') (Some nt) (Some h1') (Some h2')
           (Some m') (Some r') = Return (Some pf)"
    using ProveRangeAlice_returns_honest [of chal q pk' nt rnd m' h1' c' h2' r'] h by blast
  then have "all_fields_present pf"
    using ProveRangeAlice_complete by blast
  then show "\<exists>pf. ProveRangeAlice chal q rnd (Some pk') (Some c') (Some nt) (Some h1')
                   (Some h2') (Some m') (Some r') = Return (Some pf)
                 \<and> all_fields_present pf"
    using pf by blast
qed

theorem returned_proofs_complete_witness:
  "challenge_ok sum_challenge
   \<and> honest_alice_samples 7 3 5 \<lparr>rp_alpha = 1, rp_beta = 1, rp_gamma = 1, rp_rho = 1\<rparr>
   \<and> gcd (2::int) 5 = 1
   \<and> (\<exists>pf. ProveRangeAlice sum_challenge 7
            \<lparr>rp_alpha = 1, rp_beta = 1, rp_gamma = 1, rp_rho = 1\<rparr>
            (Some \<lparr>N = 3, Gamma = 4\<rparr>) (Some 1) (Some 5) (Some 2) (Some 3) (Some (- 1))
            (Some 1)
          = Return (Some pf) \<and> all_fields_present pf)
   \<and> (\<exists>pf. NewProof sum_challenge
            \<lparr>smp_alpha = 1, smp_beta = 1, smp_mu = 1, smp_nu = 0, smp_sigma = 0, smp_r = 1,
             smp_x = 1, smp_y = 1\<rparr>
            (Some (Curve 7)) (Some 15) (Some 11) (Some 2) (Some 3) (Some 3) (Some 5)
          = Return (Some pf, None) \<and> ValidateBasic pf)
   \<and> (\<exists>pf. NewProofFromBytes [[2], [10], [6], [6], [8], [7], [1], [1], [1], [1], [1]]
          = (Some pf, None) \<and> ValidateBasic pf)"
proof -
  let ?rnd = "\<lparr>rp_alpha = 1, rp_beta = 1, rp_gamma = 1, rp_rho = 1\<rparr>"
  let ?pk = "\<lparr>N = 3, Gamma = 4\<rparr>"
  let ?rnd' = "\<lparr>smp_alpha = 1, smp_beta = 1, smp_mu = 1, smp_nu = 0, smp_sigma = 0,
               smp_r = 1, smp_x = 1, smp_y = 1\<rparr>"
  let ?bzs = "[[2], [10], [6], [6], [8], [7], [1], [1], [1], [1], [1]] :: 8 word list list"
  let ?x = "\<lparr>Z = Some 4, U = Some 4, W = Some 1, S = Some 1, S1 = Some (- 2), S2 = Some 4\<rparr>"
  let ?y = "\<lparr>P = Some 2, Q = Some 10, A = Some 6, B = Some 6, T = Some 8, Sigma = Some 0,
             Z1 = Some 1, Z2 = Some 1, W1 = Some 1, W2 = Some 1, V = Some 1\<rparr>"
  have hs: "honest_alice_samples 7 (N ?pk) 5 ?rnd"
    by code_simp
  have g: "gcd (2::int) 5 = 1"
    by code_simp
  have a: "ProveRangeAlice sum_challenge 7 ?rnd (Some ?pk) (Some 1) (Some 5) (Some 2) (Some 3)
             (Some (- 1)) (Some 1) = Return (Some ?x)"
    by code_simp
  have b: "NewProof sum_challenge ?rnd' (Some (Curve 7)) (Some 15) (Some 11) (Some 2) (Some 3)
             (Some 3) (Some 5) = Return (Some ?y, None)"
    by code_simp
  have c: "NewProofFromBytes ?bzs = (Some (?y\<lparr>Sigma := Some 7\<rparr>), None)"
    by code_simp
  note inst = returned_proofs_complete
    [where chal = sum_challenge and q = 7 and rnd = ?rnd and pk = "Some ?pk" and c = "Some 1"
       and NTilde = "Some 5" and ?h1.0 = "Some 2" and ?h2.0 = "Some 3" and m = "Some (- 1)"
       and r = "Some 1" and res = "Some ?x" and rnd' = ?rnd' and ec = "Some (Curve 7)"
       and ?N0.0 = "Some 15" and NCap = "Some 11" and s = "Some 2" and t = "Some 3"
       and ?N0p.0 = "Some 3" and ?N0q.0 = "Some 5" and res' = "Some ?y" and bzs = ?bzs
       and res'' = "Some (?y\<lparr>Sigma := Some 7\<rparr>)" and nt = 5 and pk' = ?pk and m' = "- 1"
       and c' = 1 and h1' = 2 and h2' = 3 and r' = 1]
  have "\<exists>pf. ProveRangeAlice sum_challenge 7 ?rnd (Some ?pk) (Some 1) (Some 5) (Some 2)
               (Some 3) (Some (- 1)) (Some 1) = Return (Some pf) \<and> all_fields_present pf"
    using inst [THEN conjunct2, THEN conjunct2, THEN conjunct2] sum_challenge_ok hs g
    by blast
  moreover have "\<exists>pf. NewProof sum_challenge ?rnd' (Some (Curve 7)) (Some 15) (Some 11)
               (Some 2) (Some 3) (Some 3) (Some 5) = Return (Some pf, None) \<and> ValidateBasic pf"
    using inst [THEN conjunct2, THEN conjunct1] b by simp
  moreover have "\<exists>pf. NewProofFromBytes ?bzs = (Some pf, None) \<and> ValidateBasic pf"
    using inst [THEN conjunct2, THEN conjunct2, THEN conjunct1] c by simp
  moreover have "all_fields_present ?x"
    using inst [THEN conjunct1] a by simp
  ultimately show ?thesis
    using sum_challenge_ok hs g by simp
qed

section \<open>Nil handling of the two verifiers\<close>

text \<open>
  Claim C5. \<open>ProofFac.Verify\<close> returns false, without a panic, whenever the proof is nil,
  one of its eleven fields is nil, one of \<open>ec\<close>, \<open>N0\<close>, \<open>NCap\<close>, \<open>s\<close>, \<open>t\<close> is nil,
  \<open>N0 \<le> 0\<close> or \<open>NCap \<le> 0\<close>.
\<close>

theorem ProofFac_Verify_short_circuits:
  assumes "pf = None
         \<or> (\<exists>p. pf = Some p \<and> (P p = None \<or> Q p = None \<or> A p = None \<or> B p = None
                \<or> T p = None \<or> Sigma p = None \<or> Z1 p = None \<or> Z2 p = None \<or> W1 p = None
                \<or> W2 p = None \<or> V p = None))
         \<or> ec = None \<or> N0 = None \<or> NCap = None \<or> s = None \<or> t = None
         \<or> (\<exists>n. N0 = Some n \<and> n \<le> 0) \<or> (\<exists>n. NCap = Some n \<and> n \<le> 0)"
  shows "ProofFac_Verify chal pf ec N0 NCap s t = Return False"
proof (cases "pf = None \<or> \<not> ValidateBasic (the pf) \<or> ec = None \<or> N0 = None \<or> NCap = None
                \<or> s = None \<or> t = None")
  case True
  then show ?thesis by (simp add: ProofFac_Verify_def)
next
  case False
  then have "(\<exists>n. N0 = Some n \<and> n \<le> 0) \<or> (\<exists>n. NCap = Some n \<and> n \<le> 0)"
    using assms by (auto simp: ValidateBasic_def)
  then have "sgn (the N0) \<noteq> 1 \<or> sgn (the NCap) \<noteq> 1"
    by (auto simp: sgn_if)
  then show ?thesis
    using False by (auto simp add: ProofFac_Verify_def)
qed

theorem ProofFac_Verify_short_circuits_witness:
  "ProofFac_Verify sum_challenge None (Some (Curve 7)) (Some 15) (Some 11) (Some 2) (Some 3)
     = Return False
   \<and> ProofFac_Verify sum_challenge
        (Some \<lparr>P = Some 2, Q = Some 10, A = Some 6, B = Some 6, T = Some 8, Sigma = Some 0,
                Z1 = Some 1, Z2 = Some 1, W1 = Some 1, W2 = Some 1, V = None\<rparr>)
        (Some (Curve 7)) (Some 15) (Some 11) (Some 2) (Some 3) = Return False
   \<and> ProofFac_Verify sum_challenge
        (Some \<lparr>P = Some 2, Q = Some 10, A = Some 6, B = Some 6, T = Some 8, Sigma = Some 0,
                Z1 = Some 1, Z2 = Some 1, W1 = Some 1, W2 = Some 1, V = Some 1\<rparr>)
        (Some (Curve 7)) (Some 0) (Some 11) (Some 2) (Some 3) = Return False
   \<and> ProofFac_Verify sum_challenge
        (Some \<lparr>P = Some 2, Q = Some 10, A = Some 6, B = Some 6, T = Some 8, Sigma = Some 0,
                Z1 = Some 1, Z2 = Some 1, W1 = Some 1, W2 = Some 1, V = Some 1\<rparr>)
        (Some (Curve 7)) (Some 15) (Some (- 11)) (Some 2) None = Return False"
proof -
  let ?pf = "\<lparr>P = Some 2, Q = Some 10, A = Some 6, B = Some 6, T = Some 8, Sigma = Some 0,
              Z1 = Some 1, Z2 = Some 1, W1 = Some 1, W2 = Some 1, V = Some (1::int)\<rparr>"
  show ?thesis
    using ProofFac_Verify_short_circuits
        [of None "Some (Curve 7)" "Some 15" "Some 11" "Some 2" "Some 3" sum_challenge]
      ProofFac_Verify_short_circuits
        [of "Some (?pf\<lparr>V := None\<rparr>)" "Some (Curve 7)" "Some 15" "Some 11" "Some 2" "Some 3"
            sum_challenge]
      ProofFac_Verify_short_circuits
        [of "Some ?pf" "Some (Curve 7)" "Some 0" "Some 11" "Some 2" "Some 3" sum_challenge]
      ProofFac_Verify_short_circuits
        [of "Some ?pf" "Some (Curve 7)" "Some 15" "Some (- 11)" "Some 2" None sum_challenge]
    by simp
qed

text \<open>
  Claim C2. \<open>RangeProofAlice.Verify\<close> is to return false, without a panic, whenever the
  proof is nil, a public input is nil or one of the six proof fields is nil. The code
  checks the proof pointer and the five public inputs only: with the field \<open>S1\<close> nil and
  everything else present, the comparison \<open>pf.S1.Cmp(q3)\<close> dereferences nil.
\<close>

theorem RangeProofAlice_Verify_nil_S1_panics:
  "RangeProofAlice_Verify chal q (Some (pf\<lparr>S1 := None\<rparr>)) (Some pk) (Some nt) (Some h1)
     (Some h2) (Some c) = Panic NilPointerDereference"
  by (simp add: RangeProofAlice_Verify_def big_Cmp_def Let_def)

theorem RangeProofAlice_Verify_nil_S1_panics_witness:
  "RangeProofAlice_Verify sum_challenge 7
     (Some \<lparr>Z = Some 1, U = Some 4, W = Some 3, S = Some 1, S1 = None, S2 = Some 1\<rparr>)
     (Some \<lparr>N = 3, Gamma = 4\<rparr>) (Some 5) (Some 2) (Some 1) (Some 1)
   = Panic NilPointerDereference"
  using RangeProofAlice_Verify_nil_S1_panics
    [of sum_challenge 7
        "\<lparr>Z = Some 1, U = Some 4, W = Some 3, S = Some 1, S1 = Some 0, S2 = Some 1\<rparr>"
        "\<lparr>N = 3, Gamma = 4\<rparr>" 5 2 1 1]
  by simp

section \<open>The bound on \<open>S1\<close> in the range proof\<close>

lemma Alice_S1_too_big:
  assumes "q ^ 3 < s1"
  shows "RangeProofAlice_Verify chal q (Some (pf\<lparr>S1 := Some s1\<rparr>)) (Some pk) (Some nt)
           (Some h1) (Some h2) (Some c) = Return False"
  using assms
  by (simp add: RangeProofAlice_Verify_def big_Cmp_def Let_def power3_eq_cube mult.assoc)

lemma Alice_S1_within:
  assumes "s1 \<le> q ^ 3"
  shows "RangeProofAlice_Verify chal q (Some (pf\<lparr>S1 := Some s1\<rparr>)) (Some pk) (Some nt)
           (Some h1) (Some h2) (Some c)
         = Alice_equalities chal q (pf\<lparr>S1 := Some s1\<rparr>) pk nt (Some h1) (Some h2) (Some c)"
  using assms
  by (simp add: RangeProofAlice_Verify_def big_Cmp_def Let_def power3_eq_cube mult.assoc)

lemma Alice_equalities_eq:
  assumes "N pk \<noteq> 0" "nt \<noteq> 0"
    and "e = chal q [N pk, Gamma pk, c, z, u, w]"
    and "big_Exp c (- e) (N pk * N pk) = Some ce"
    and "big_Exp s (N pk) (N pk * N pk) = Some sn"
    and "big_Exp (Gamma pk) s1 (N pk * N pk) = Some g"
    and "big_Exp h1 s1 nt = Some a1"
    and "big_Exp h2 s2 nt = Some a2"
    and "big_Exp z (- e) nt = Some ze"
  shows "Alice_equalities chal q
           \<lparr>Z = Some z, U = Some u, W = Some w, S = Some s, S1 = Some s1, S2 = Some s2\<rparr>
           pk nt (Some h1) (Some h2) (Some c)
         = Return (u = (g * sn mod \<bar>N pk * N pk\<bar>) * ce mod \<bar>N pk * N pk\<bar>
                 \<and> w = (a1 * a2 mod \<bar>nt\<bar>) * ze mod \<bar>nt\<bar>)"
proof -
  have "Alice_equalities chal q
           \<lparr>Z = Some z, U = Some u, W = Some w, S = Some s, S1 = Some s1, S2 = Some s2\<rparr>
           pk nt (Some h1) (Some h2) (Some c)
         = (if u \<noteq> (g * sn mod \<bar>N pk * N pk\<bar>) * ce mod \<bar>N pk * N pk\<bar> then Return False
            else if w \<noteq> (a1 * a2 mod \<bar>nt\<bar>) * ze mod \<bar>nt\<bar> then Return False
            else Return True)"
    unfolding Alice_equalities_def Let_def AsInts_def
    using assms(1,2) assms(4-9)[unfolded assms(3)]
    by (simp add: derive_challenge_Some6 big_Sub_def ModInt_Mul_Some big_Mod_def big_Cmp_differs
          split del: if_split cong: if_cong)
  then show ?thesis
    by (simp only: if_Return_False simp_thms)
qed

text \<open>
  Claim C4. With the proof, the key and the four integers all non-nil,
  \<open>RangeProofAlice.Verify\<close> returns false whenever \<open>S1\<close> is strictly greater than \<open>q\<^sup>3\<close>,
  whatever the two equality checks would give; with \<open>S1\<close> equal to \<open>q\<^sup>3\<close> the bound check
  does not reject, and the result is that of the challenge and the equality checks.
\<close>

theorem RangeProofAlice_Verify_S1_bound:
  "(q ^ 3 < s1 \<longrightarrow>
      RangeProofAlice_Verify chal q (Some (pf\<lparr>S1 := Some s1\<rparr>)) (Some pk) (Some nt) (Some h1)
        (Some h2) (Some c) = Return False)
   \<and> RangeProofAlice_Verify chal q (Some (pf\<lparr>S1 := Some (q ^ 3)\<rparr>)) (Some pk) (Some nt)
        (Some h1) (Some h2) (Some c)
     = Alice_equalities chal q (pf\<lparr>S1 := Some (q ^ 3)\<rparr>) pk nt (Some h1) (Some h2) (Some c)"
  using Alice_S1_too_big [of q s1] Alice_S1_within [of "q ^ 3" q] by simp

theorem RangeProofAlice_Verify_S1_bound_witness:
  "(7::int) ^ 3 < 344
   \<and> RangeProofAlice_Verify sum_challenge 7
        (Some \<lparr>Z = Some 1, U = Some 4, W = Some 3, S = Some 1, S1 = Some 344, S2 = Some 1\<rparr>)
        (Some \<lparr>N = 3, Gamma = 4\<rparr>) (Some 5) (Some 2) (Some 1) (Some 1) = Return False
   \<and> RangeProofAlice_Verify sum_challenge 7
        (Some \<lparr>Z = Some 1, U = Some 4, W = Some 3, S = Some 1, S1 = Some 343, S2 = Some 1\<rparr>)
        (Some \<lparr>N = 3, Gamma = 4\<rparr>) (Some 5) (Some 2) (Some 1) (Some 1) = Return True"
proof -
  let ?pf = "\<lparr>Z = Some 1, U = Some 4, W = Some 3, S = Some 1, S1 = Some 343, S2 = Some 1\<rparr>"
  let ?pk = "\<lparr>N = 3, Gamma = 4\<rparr>"
  have eqs: "Alice_equalities sum_challenge 7 ?pf ?pk 5 (Some 2) (Some 1) (Some 1) = Return True"
    by code_simp
  show ?thesis
    using RangeProofAlice_Verify_S1_bound [of 7 344 sum_challenge ?pf ?pk 5 2 1 1] eqs
    by simp
qed

text \<open>
  Claim C9. The bound check on \<open>S1\<close> is one-sided: it rejects only \<open>S1 > q\<^sup>3\<close>. For a proof
  whose \<open>S1\<close> is at most \<open>q\<^sup>3\<close>, negative values included, the check passes and the result
  of \<open>RangeProofAlice.Verify\<close> is that of the challenge recomputation and the two equality
  checks alone: where none of the six modular powers is nil, it is true exactly if
  \<open>U = Gamma^S1 \<cdot> S^N \<cdot> c^(-e) mod N\<^sup>2\<close> and \<open>W = h1^S1 \<cdot> h2^S2 \<cdot> Z^(-e) mod NTilde\<close>,
  each power being the value that \<open>Exp\<close> returns.
\<close>

theorem RangeProofAlice_Verify_bound_one_sided:
  assumes "s1 \<le> q ^ 3"
  shows "RangeProofAlice_Verify chal q
           (Some \<lparr>Z = Some z, U = Some u, W = Some w, S = Some s, S1 = Some s1, S2 = Some s2\<rparr>)
           (Some pk) (Some nt) (Some h1) (Some h2) (Some c)
         = Alice_equalities chal q
             \<lparr>Z = Some z, U = Some u, W = Some w, S = Some s, S1 = Some s1, S2 = Some s2\<rparr>
             pk nt (Some h1) (Some h2) (Some c)
       \<and> (N pk \<noteq> 0 \<and> nt \<noteq> 0
            \<and> big_Exp c (- chal q [N pk, Gamma pk, c, z, u, w]) (N pk * N pk) = Some ce
            \<and> big_Exp s (N pk) (N pk * N pk) = Some sn
            \<and> big_Exp (Gamma pk) s1 (N pk * N pk) = Some g
            \<and> big_Exp h1 s1 nt = Some a1
            \<and> big_Exp h2 s2 nt = Some a2
            \<and> big_Exp z (- chal q [N pk, Gamma pk, c, z, u, w]) nt = Some ze
          \<longrightarrow> RangeProofAlice_Verify chal q
                (Some \<lparr>Z = Some z, U = Some u, W = Some w, S = Some s, S1 = Some s1,
                        S2 = Some s2\<rparr>)
                (Some pk) (Some nt) (Some h1) (Some h2) (Some c)
              = Return (u = (g * sn mod \<bar>N pk * N pk\<bar>) * ce mod \<bar>N pk * N pk\<bar>
                      \<and> w = (a1 * a2 mod \<bar>nt\<bar>) * ze mod \<bar>nt\<bar>))"
proof -
  let ?pf = "\<lparr>Z = Some z, U = Some u, W = Some w, S = Some s, S1 = Some s1, S2 = Some s2\<rparr>"
  have within: "RangeProofAlice_Verify chal q (Some ?pf) (Some pk) (Some nt) (Some h1)
                  (Some h2) (Some c)
                = Alice_equalities chal q ?pf pk nt (Some h1) (Some h2) (Some c)"
    using Alice_S1_within [OF assms, of chal ?pf pk nt h1 h2 c] by simp
  show ?thesis
  proof (intro conjI impI)
    show "RangeProofAlice_Verify chal q (Some ?pf) (Some pk) (Some nt) (Some h1) (Some h2)
            (Some c)
          = Alice_equalities chal q ?pf pk nt (Some h1) (Some h2) (Some c)"
      by (rule within)
  next
    assume h: "N pk \<noteq> 0 \<and> nt \<noteq> 0
            \<and> big_Exp c (- chal q [N pk, Gamma pk, c, z, u, w]) (N pk * N pk) = Some ce
            \<and> big_Exp s (N pk) (N pk * N pk) = Some sn
            \<and> big_Exp (Gamma pk) s1 (N pk * N pk) = Some g
            \<and> big_Exp h1 s1 nt = Some a1
            \<and> big_Exp h2 s2 nt = Some a2
            \<and> big_Exp z (- chal q [N pk, Gamma pk, c, z, u, w]) nt = Some ze"
    show "RangeProofAlice_Verify chal q (Some ?pf) (Some pk) (Some nt) (Some h1) (Some h2)
            (Some c)
          = Return (u = (g * sn mod \<bar>N pk * N pk\<bar>) * ce mod \<bar>N pk * N pk\<bar>
                  \<and> w = (a1 * a2 mod \<bar>nt\<bar>) * ze mod \<bar>nt\<bar>)"
      unfolding within
      by (rule Alice_equalities_eq [OF _ _ refl]) (use h in simp_all)
  qed
qed

theorem RangeProofAlice_Verify_bound_one_sided_witness:
  "(- 1 :: int) \<le> 7 ^ 3
   \<and> RangeProofAlice_Verify sum_challenge 7
        (Some \<lparr>Z = Some 1, U = Some 7, W = Some 3, S = Some 1, S1 = Some (- 1), S2 = Some 1\<rparr>)
        (Some \<lparr>N = 3, Gamma = 4\<rparr>) (Some 5) (Some 2) (Some 1) (Some 1) = Return True
   \<and> RangeProofAlice_Verify sum_challenge 7
        (Some \<lparr>Z = Some 1, U = Some 2, W = Some 3, S = Some 1, S1 = Some (- 1), S2 = Some 1\<rparr>)
        (Some \<lparr>N = 3, Gamma = - 5\<rparr>) (Some 5) (Some (- 2)) (Some 1) (Some 1) = Return True"
proof -
  let ?pk = "\<lparr>N = 3, Gamma = 4\<rparr>"
  let ?pk' = "\<lparr>N = 3, Gamma = - 5\<rparr>"
  have le: "(- 1 :: int) \<le> 7 ^ 3" by simp
  have hyp: "N ?pk \<noteq> 0 \<and> (5::int) \<noteq> 0
            \<and> big_Exp 1 (- sum_challenge 7 [N ?pk, Gamma ?pk, 1, 1, 7, 3]) (N ?pk * N ?pk)
                = Some 1
            \<and> big_Exp 1 (N ?pk) (N ?pk * N ?pk) = Some 1
            \<and> big_Exp (Gamma ?pk) (- 1) (N ?pk * N ?pk) = Some 7
            \<and> big_Exp 2 (- 1) 5 = Some 3
            \<and> big_Exp 1 1 5 = Some 1
            \<and> big_Exp 1 (- sum_challenge 7 [N ?pk, Gamma ?pk, 1, 1, 7, 3]) 5 = Some 1"
    by code_simp
  have hyp': "N ?pk' \<noteq> 0 \<and> (5::int) \<noteq> 0
            \<and> big_Exp 1 (- sum_challenge 7 [N ?pk', Gamma ?pk', 1, 1, 2, 3]) (N ?pk' * N ?pk')
                = Some 1
            \<and> big_Exp 1 (N ?pk') (N ?pk' * N ?pk') = Some 1
            \<and> big_Exp (Gamma ?pk') (- 1) (N ?pk' * N ?pk') = Some 2
            \<and> big_Exp (- 2) (- 1) 5 = Some 3
            \<and> big_Exp 1 1 5 = Some 1
            \<and> big_Exp 1 (- sum_challenge 7 [N ?pk', Gamma ?pk', 1, 1, 2, 3]) 5 = Some 1"
    by code_simp
  have "RangeProofAlice_Verify sum_challenge 7
        (Some \<lparr>Z = Some 1, U = Some 7, W = Some 3, S = Some 1, S1 = Some (- 1), S2 = Some 1\<rparr>)
        (Some ?pk) (Some 5) (Some 2) (Some 1) (Some 1)
        = Return (7 = (7 * 1 mod \<bar>N ?pk * N ?pk\<bar>) * 1 mod \<bar>N ?pk * N ?pk\<bar>
                \<and> 3 = (3 * 1 mod \<bar>5::int\<bar>) * 1 mod \<bar>5\<bar>)"
    using RangeProofAlice_Verify_bound_one_sided
      [OF le, where chal = sum_challenge and z = 1 and u = 7 and w = 3 and s = 1 and ?s2.0 = 1
         and pk = ?pk and nt = 5 and ?h1.0 = 2 and ?h2.0 = 1 and c = 1 and ce = 1 and sn = 1
         and g = 7 and ?a1.0 = 3 and ?a2.0 = 1 and ze = 1, THEN conjunct2, THEN mp, OF hyp]
    by simp
  moreover have "RangeProofAlice_Verify sum_challenge 7
        (Some \<lparr>Z = Some 1, U = Some 2, W = Some 3, S = Some 1, S1 = Some (- 1), S2 = Some 1\<rparr>)
        (Some ?pk') (Some 5) (Some (- 2)) (Some 1) (Some 1)
        = Return (2 = (2 * 1 mod \<bar>N ?pk' * N ?pk'\<bar>) * 1 mod \<bar>N ?pk' * N ?pk'\<bar>
                \<and> 3 = (3 * 1 mod \<bar>5::int\<bar>) * 1 mod \<bar>5\<bar>)"
    using RangeProofAlice_Verify_bound_one_sided
      [OF le, where chal = sum_challenge and z = 1 and u = 2 and w = 3 and s = 1 and ?s2.0 = 1
         and pk = ?pk' and nt = 5 and ?h1.0 = "- 2" and ?h2.0 = 1 and c = 1 and ce = 1
         and sn = 1 and g = 2 and ?a1.0 = 3 and ?a2.0 = 1 and ze = 1, THEN conjunct2, THEN mp,
         OF hyp']
    by simp
  ultimately show ?thesis by simp
qed

section \<open>Byte parts of the factorization proof\<close>

text \<open>
  Claim C7. \<open>NewProofFromBytes\<close> returns a format error and no proof exactly when the
  number of parts is not 11 or some part is empty; otherwise it returns the proof whose
  fields are the parts read as unsigned big-endian integers, in the order \<open>P\<close>, \<open>Q\<close>, \<open>A\<close>,
  \<open>B\<close>, \<open>T\<close>, \<open>Sigma\<close>, \<open>Z1\<close>, \<open>Z2\<close>, \<open>W1\<close>, \<open>W2\<close>, \<open>V\<close>, with no other validation.
\<close>

theorem NewProofFromBytes_format:
  "NewProofFromBytes bzs =
     (if length bzs = 11 \<and> [] \<notin> set bzs
      then (Some \<lparr>P = Some (unsigned_big_endian (bzs ! 0)),
                   Q = Some (unsigned_big_endian (bzs ! 1)),
                   A = Some (unsigned_big_endian (bzs ! 2)),
                   B = Some (unsigned_big_endian (bzs ! 3)),
                   T = Some (unsigned_big_endian (bzs ! 4)),
                   Sigma = Some (unsigned_big_endian (bzs ! 5)),
                   Z1 = Some (unsigned_big_endian (bzs ! 6)),
                   Z2 = Some (unsigned_big_endian (bzs ! 7)),
                   W1 = Some (unsigned_big_endian (bzs ! 8)),
                   W2 = Some (unsigned_big_endian (bzs ! 9)),
                   V = Some (unsigned_big_endian (bzs ! 10))\<rparr>, None)
      else (None, Some (ErrByteParts 11)))"
  by (simp add: NewProofFromBytes_def NonEmptyMultiBytes_def ProofFacBytesParts_def
      big_SetBytes_unsigned_big_endian)

theorem NewProofFromBytes_format_witness:
  "NewProofFromBytes [[1, 0], [2], [3], [4], [5], [6], [7], [8], [9], [10], [0]]
     = (Some \<lparr>P = Some 256, Q = Some 2, A = Some 3, B = Some 4, T = Some 5, Sigma = Some 6,
              Z1 = Some 7, Z2 = Some 8, W1 = Some 9, W2 = Some 10, V = Some 0\<rparr>, None)
   \<and> NewProofFromBytes [[1], [2], [3], [4], [5], [6], [7], [8], [9], [10]]
     = (None, Some (ErrByteParts 11))
   \<and> NewProofFromBytes [[1], [2], [3], [4], [5], [], [7], [8], [9], [10], [11]]
     = (None, Some (ErrByteParts 11))"
  using NewProofFromBytes_format [of "[[1, 0], [2], [3], [4], [5], [6], [7], [8], [9], [10], [0]]"]
    NewProofFromBytes_format [of "[[1], [2], [3], [4], [5], [6], [7], [8], [9], [10]]"]
    NewProofFromBytes_format [of "[[1], [2], [3], [4], [5], [], [7], [8], [9], [10], [11]]"]
  by simp

text \<open>
  Claim C6, as the spec states it: for every validly constructed proof whose eleven fields
  are non-negative, \<open>NewProofFromBytes(proof.Bytes())\<close> succeeds and gives back the same
  integers. It fails for a field that is zero: \<open>NewProof\<close> returns the proof below on an
  honest run that samples \<open>sigma = 0\<close>, \<open>Verify\<close> accepts it, its \<open>Bytes()\<close> has an empty
  sixth part, and \<open>NewProofFromBytes\<close> answers with the format error.
\<close>

theorem Bytes_roundtrip_zero_field_counterexample:
  "honest_samples 7 15 11
     \<lparr>smp_alpha = 1, smp_beta = 1, smp_mu = 1, smp_nu = 0, smp_sigma = 0, smp_r = 1,
      smp_x = 1, smp_y = 1\<rparr>
   \<and> NewProof sum_challenge
       \<lparr>smp_alpha = 1, smp_beta = 1, smp_mu = 1, smp_nu = 0, smp_sigma = 0, smp_r = 1,
        smp_x = 1, smp_y = 1\<rparr>
       (Some (Curve 7)) (Some 15) (Some 11) (Some 2) (Some 3) (Some 3) (Some 5)
     = Return (Some \<lparr>P = Some 2, Q = Some 10, A = Some 6, B = Some 6, T = Some 8,
                     Sigma = Some 0, Z1 = Some 1, Z2 = Some 1, W1 = Some 1, W2 = Some 1,
                     V = Some 1\<rparr>, None)
   \<and> ProofFac_Verify sum_challenge
       (Some \<lparr>P = Some 2, Q = Some 10, A = Some 6, B = Some 6, T = Some 8, Sigma = Some 0,
               Z1 = Some 1, Z2 = Some 1, W1 = Some 1, W2 = Some 1, V = Some 1\<rparr>)
       (Some (Curve 7)) (Some 15) (Some 11) (Some 2) (Some 3) = Return True
   \<and> ProofFac_Bytes
       \<lparr>P = Some 2, Q = Some 10, A = Some 6, B = Some 6, T = Some 8, Sigma = Some 0,
        Z1 = Some 1, Z2 = Some 1, W1 = Some 1, W2 = Some 1, V = Some 1\<rparr>
     = Return [[2], [10], [6], [6], [8], [], [1], [1], [1], [1], [1]]
   \<and> NewProofFromBytes [[2], [10], [6], [6], [8], [], [1], [1], [1], [1], [1]]
     = (None, Some (ErrByteParts 11))"
proof (intro conjI)
  show "honest_samples 7 15 11
     \<lparr>smp_alpha = 1, smp_beta = 1, smp_mu = 1, smp_nu = 0, smp_sigma = 0, smp_r = 1,
      smp_x = 1, smp_y = 1\<rparr>"
    by code_simp
  show "NewProof sum_challenge
       \<lparr>smp_alpha = 1, smp_beta = 1, smp_mu = 1, smp_nu = 0, smp_sigma = 0, smp_r = 1,
        smp_x = 1, smp_y = 1\<rparr>
       (Some (Curve 7)) (Some 15) (Some 11) (Some 2) (Some 3) (Some 3) (Some 5)
     = Return (Some \<lparr>P = Some 2, Q = Some 10, A = Some 6, B = Some 6, T = Some 8,
                     Sigma = Some 0, Z1 = Some 1, Z2 = Some 1, W1 = Some 1, W2 = Some 1,
                     V = Some 1\<rparr>, None)"
    by code_simp
  show "ProofFac_Verify sum_challenge
       (Some \<lparr>P = Some 2, Q = Some 10, A = Some 6, B = Some 6, T = Some 8, Sigma = Some 0,
               Z1 = Some 1, Z2 = Some 1, W1 = Some 1, W2 = Some 1, V = Some 1\<rparr>)
       (Some (Curve 7)) (Some 15) (Some 11) (Some 2) (Some 3) = Return True"
    by code_simp
  show "ProofFac_Bytes
       \<lparr>P = Some 2, Q = Some 10, A = Some 6, B = Some 6, T = Some 8, Sigma = Some 0,
        Z1 = Some 1, Z2 = Some 1, W1 = Some 1, W2 = Some 1, V = Some 1\<rparr>
     = Return [[2], [10], [6], [6], [8], [], [1], [1], [1], [1], [1]]"
    by code_simp
  show "NewProofFromBytes [[2], [10], [6], [6], [8], [], [1], [1], [1], [1], [1]]
     = (None, Some (ErrByteParts 11))"
    by code_simp
qed

text \<open>
  Claim C6, amended. For every factorization proof whose eleven fields are present and
  strictly positive, \<open>Bytes()\<close> gives the eleven minimal big-endian encodings in the order
  \<open>P\<close>, \<open>Q\<close>, \<open>A\<close>, \<open>B\<close>, \<open>T\<close>, \<open>Sigma\<close>, \<open>Z1\<close>, \<open>Z2\<close>, \<open>W1\<close>, \<open>W2\<close>, \<open>V\<close>,
  \<open>NewProofFromBytes\<close> succeeds on them and reconstructs a proof with the same eleven
  integers, and \<open>Bytes()\<close> on the reconstructed proof gives the same byte arrays.
\<close>

theorem Bytes_roundtrip_positive:
  assumes "fields_positive pf"
  shows "\<exists>bzs pf'. ProofFac_Bytes pf = Return bzs
           \<and> bzs = [big_Bytes (the (P pf)), big_Bytes (the (Q pf)), big_Bytes (the (A pf)),
                    big_Bytes (the (B pf)), big_Bytes (the (T pf)), big_Bytes (the (Sigma pf)),
                    big_Bytes (the (Z1 pf)), big_Bytes (the (Z2 pf)), big_Bytes (the (W1 pf)),
                    big_Bytes (the (W2 pf)), big_Bytes (the (V pf))]
           \<and> NewProofFromBytes bzs = (Some pf', None)
           \<and> pf' = pf
           \<and> ProofFac_Bytes pf' = Return bzs"
proof -
  obtain p q' a b t' sg z1 z2 w1 w2 v where
    pf: "pf = \<lparr>P = Some p, Q = Some q', A = Some a, B = Some b, T = Some t', Sigma = Some sg,
            Z1 = Some z1, Z2 = Some z2, W1 = Some w1, W2 = Some w2, V = Some v\<rparr>"
    and pos: "0 < p" "0 < q'" "0 < a" "0 < b" "0 < t'" "0 < sg" "0 < z1" "0 < z2" "0 < w1"
      "0 < w2" "0 < v"
    using assms
    by (cases pf) (auto simp: fields_positive_def split: option.splits)
  show ?thesis
    using pos
    by (simp add: pf ProofFac_Bytes_def ValidateBasic_def NewProofFromBytes_def
        NonEmptyMultiBytes_def ProofFacBytesParts_def Bytes_nonempty [THEN not_sym]
        SetBytes_Bytes)
qed

theorem Bytes_roundtrip_positive_witness:
  "fields_positive
     \<lparr>P = Some 2, Q = Some 10, A = Some 6, B = Some 6, T = Some 8, Sigma = Some 70000,
      Z1 = Some 1, Z2 = Some 1, W1 = Some 1, W2 = Some 1, V = Some 1\<rparr>
   \<and> ProofFac_Bytes
       \<lparr>P = Some 2, Q = Some 10, A = Some 6, B = Some 6, T = Some 8, Sigma = Some 70000,
        Z1 = Some 1, Z2 = Some 1, W1 = Some 1, W2 = Some 1, V = Some 1\<rparr>
     = Return [[2], [10], [6], [6], [8], [1, 17, 112], [1], [1], [1], [1], [1]]
   \<and> NewProofFromBytes [[2], [10], [6], [6], [8], [1, 17, 112], [1], [1], [1], [1], [1]]
     = (Some \<lparr>P = Some 2, Q = Some 10, A = Some 6, B = Some 6, T = Some 8,
              Sigma = Some 70000, Z1 = Some 1, Z2 = Some 1, W1 = Some 1, W2 = Some 1,
              V = Some 1\<rparr>, None)"
proof -
  let ?pf = "\<lparr>P = Some 2, Q = Some 10, A = Some 6, B = Some 6, T = Some 8, Sigma = Some 70000,
              Z1 = Some 1, Z2 = Some 1, W1 = Some 1, W2 = Some 1, V = Some (1::int)\<rparr>"
  have pos: "fields_positive ?pf"
    by (simp add: fields_positive_def)
  have bytes: "ProofFac_Bytes ?pf
               = Return [[2], [10], [6], [6], [8], [1, 17, 112], [1], [1], [1], [1], [1]]"
    by code_simp
  show ?thesis
    using Bytes_roundtrip_positive [OF pos] pos bytes by auto
qed

section \<open>The checks of the factorization verifier\<close>

lemma rangeParameter_eq: "rangeParameter = 32768"
  by (simp add: rangeParameter_def)

lemma Verify_checks_iff:
  "Verify_checks \<lparr>P = Some p, Q = Some q', A = Some a, B = Some b, T = Some t', Sigma = Some sg,
            Z1 = Some z1, Z2 = Some z2, W1 = Some w1, W2 = Some w2, V = Some v\<rparr> q n0 n sq \<longleftrightarrow>
     IsInInterval p n \<and> IsInInterval q' n \<and> IsInInterval a n \<and> IsInInterval b n
     \<and> IsInInterval t' n \<and> IsInInterval sg (rangeParameter * n * n0)
     \<and> gcd p n = 1 \<and> gcd q' n = 1 \<and> gcd a n = 1 \<and> gcd b n = 1 \<and> gcd t' n = 1
     \<and> IsInInterval w1 (push_bit 1 (rangeParameter * n * q))
     \<and> IsInInterval w2 (push_bit 1 (rangeParameter * n * q))
     \<and> IsInInterval v (push_bit 1 (rangeParameter * n * n0 * q))
     \<and> IsInInterval z1 (rangeParameter * q * sq) \<and> IsInInterval z2 (rangeParameter * q * sq)"
  by (simp add: Verify_checks_def Let_def)

lemma Verify_equalities_nonneg:
  assumes n: "0 < n" and nn: "0 \<le> z1" "0 \<le> z2" "0 \<le> w1" "0 \<le> w2" "0 \<le> v" "0 \<le> sg" "0 \<le> n0"
    and e: "0 \<le> chal q [n0, n, s, t, p, q', a, b, t', sg]"
  shows "Verify_equalities chal
           \<lparr>P = Some p, Q = Some q', A = Some a, B = Some b, T = Some t', Sigma = Some sg,
            Z1 = Some z1, Z2 = Some z2, W1 = Some w1, W2 = Some w2, V = Some v\<rparr> q n0 n s t =
         Return (let e = chal q [n0, n, s, t, p, q', a, b, t', sg] in
                 s ^ nat z1 * t ^ nat w1 mod n = a * (p ^ nat e mod n) mod n
               \<and> s ^ nat z2 * t ^ nat w2 mod n = b * (q' ^ nat e mod n) mod n
               \<and> q' ^ nat z1 * t ^ nat v mod n
                   = t' * ((s ^ nat n0 * t ^ nat sg mod n) ^ nat e mod n) mod n)"
proof -
  have "Verify_equalities chal
           \<lparr>P = Some p, Q = Some q', A = Some a, B = Some b, T = Some t', Sigma = Some sg,
            Z1 = Some z1, Z2 = Some z2, W1 = Some w1, W2 = Some w2, V = Some v\<rparr> q n0 n s t =
     (let e = chal q [n0, n, s, t, p, q', a, b, t', sg] in
      if s ^ nat z1 * t ^ nat w1 mod n \<noteq> a * (p ^ nat e mod n) mod n then Return False
      else if s ^ nat z2 * t ^ nat w2 mod n \<noteq> b * (q' ^ nat e mod n) mod n then Return False
      else if q' ^ nat z1 * t ^ nat v mod n
                   \<noteq> t' * ((s ^ nat n0 * t ^ nat sg mod n) ^ nat e mod n) mod n
      then Return False else Return True)"
    unfolding Verify_equalities_def Let_def
    using n nn e
    by (simp only: ProofFac.simps derive_challenge_Some10 and_then_Return ExpMulExp_nonneg
          ModInt_Exp_nonneg ModInt_Mul_pos)
  then show ?thesis
    by (simp only: Let_def if_Return_False simp_thms)
qed

lemma ProofFac_Verify_present:
  assumes "0 < n0" "0 < n"
  shows "ProofFac_Verify chal
           (Some \<lparr>P = Some p, Q = Some q', A = Some a, B = Some b, T = Some t', Sigma = Some sg,
                   Z1 = Some z1, Z2 = Some z2, W1 = Some w1, W2 = Some w2, V = Some v\<rparr>)
           (Some (Curve q)) (Some n0) (Some n) (Some s) (Some t)
         = (if Verify_checks
                 \<lparr>P = Some p, Q = Some q', A = Some a, B = Some b, T = Some t', Sigma = Some sg,
                  Z1 = Some z1, Z2 = Some z2, W1 = Some w1, W2 = Some w2, V = Some v\<rparr>
                 q n0 n (isqrt n0)
            then Verify_equalities chal
                 \<lparr>P = Some p, Q = Some q', A = Some a, B = Some b, T = Some t', Sigma = Some sg,
                  Z1 = Some z1, Z2 = Some z2, W1 = Some w1, W2 = Some w2, V = Some v\<rparr>
                 q n0 n s t
            else Return False)"
  using assms
  by (simp add: ProofFac_Verify_def ValidateBasic_def big_Sqrt_def sgn_if)

lemma Verify_checks_spec:
  "Verify_checks pf q N0 NCap (isqrt N0)
     \<longleftrightarrow> spec_interval_checks pf q N0 NCap \<and> spec_coprimality_checks pf NCap"
  unfolding Verify_checks_def spec_interval_checks_def spec_coprimality_checks_def Let_def
    IsInInterval_def rangeParameter_eq push_bit_eq_mult
  by (auto simp: mult_ac)

text \<open>
  Claim C3. With a proof whose fields are all present and positive \<open>N0\<close> and \<open>NCap\<close>,
  \<open>ProofFac.Verify\<close> performs exactly the interval-membership checks (\<open>P\<close>, \<open>Q\<close>, \<open>A\<close>,
  \<open>B\<close>, \<open>T\<close> in \<open>[0, NCap)\<close>; \<open>Sigma\<close> in \<open>[0, l\<cdot>N0\<cdot>NCap)\<close>; \<open>W1\<close>, \<open>W2\<close> in
  \<open>[0, 2\<cdot>l\<cdot>q\<cdot>NCap)\<close>; \<open>V\<close> in \<open>[0, 2\<cdot>l\<cdot>q\<cdot>N0\<cdot>NCap)\<close>; \<open>Z1\<close>, \<open>Z2\<close> in
  \<open>[0, l\<cdot>q\<cdot>\<surd>N0)\<close>) and the five coprimality checks with \<open>NCap\<close>: it returns false when
  one of them fails, whatever the equality checks would give, and otherwise its result is
  that of the challenge and the three equality checks.
\<close>

theorem ProofFac_Verify_interval_and_coprimality_checks:
  assumes "ValidateBasic pf" "0 < N0" "0 < NCap"
  shows "ProofFac_Verify chal (Some pf) (Some ec) (Some N0) (Some NCap) (Some s) (Some t)
         = (if spec_interval_checks pf (Params_N ec) N0 NCap \<and> spec_coprimality_checks pf NCap
            then Verify_equalities chal pf (Params_N ec) N0 NCap s t
            else Return False)"
  using assms
  by (simp add: ProofFac_Verify_def big_Sqrt_def sgn_if Verify_checks_spec)

theorem ProofFac_Verify_interval_and_coprimality_checks_witness:
  "ValidateBasic
     \<lparr>P = Some 0, Q = Some 10, A = Some 6, B = Some 6, T = Some 8, Sigma = Some 0,
      Z1 = Some 1, Z2 = Some 1, W1 = Some 1, W2 = Some 1, V = Some 1\<rparr>
   \<and> \<not> spec_coprimality_checks
        \<lparr>P = Some 0, Q = Some 10, A = Some 6, B = Some 6, T = Some 8, Sigma = Some 0,
         Z1 = Some 1, Z2 = Some 1, W1 = Some 1, W2 = Some 1, V = Some 1\<rparr> 11
   \<and> ProofFac_Verify sum_challenge
       (Some \<lparr>P = Some 0, Q = Some 10, A = Some 6, B = Some 6, T = Some 8, Sigma = Some 0,
               Z1 = Some 1, Z2 = Some 1, W1 = Some 1, W2 = Some 1, V = Some 1\<rparr>)
       (Some (Curve 7)) (Some 15) (Some 11) (Some 2) (Some 3) = Return False
   \<and> spec_interval_checks
        \<lparr>P = Some 2, Q = Some 10, A = Some 6, B = Some 6, T = Some 8, Sigma = Some 0,
         Z1 = Some 1, Z2 = Some 1, W1 = Some 1, W2 = Some 1, V = Some 1\<rparr> 7 15 11
   \<and> spec_coprimality_checks
        \<lparr>P = Some 2, Q = Some 10, A = Some 6, B = Some 6, T = Some 8, Sigma = Some 0,
         Z1 = Some 1, Z2 = Some 1, W1 = Some 1, W2 = Some 1, V = Some 1\<rparr> 11
   \<and> ProofFac_Verify sum_challenge
       (Some \<lparr>P = Some 2, Q = Some 10, A = Some 6, B = Some 6, T = Some 8, Sigma = Some 0,
               Z1 = Some 1, Z2 = Some 1, W1 = Some 1, W2 = Some 1, V = Some 1\<rparr>)
       (Some (Curve 7)) (Some 15) (Some 11) (Some 2) (Some 3) = Return True"
proof -
  let ?bad = "\<lparr>P = Some 0, Q = Some 10, A = Some 6, B = Some 6, T = Some 8, Sigma = Some 0,
               Z1 = Some 1, Z2 = Some 1, W1 = Some 1, W2 = Some 1, V = Some (1::int)\<rparr>"
  let ?pf = "\<lparr>P = Some 2, Q = Some 10, A = Some 6, B = Some 6, T = Some 8, Sigma = Some 0,
              Z1 = Some 1, Z2 = Some 1, W1 = Some 1, W2 = Some 1, V = Some (1::int)\<rparr>"
  have vb: "ValidateBasic ?bad" "ValidateBasic ?pf"
    by (simp_all add: ValidateBasic_def)
  have nc: "\<not> spec_coprimality_checks ?bad 11"
    by (simp add: spec_coprimality_checks_def)
  have ic: "spec_interval_checks ?pf 7 15 11"
    by code_simp
  have cc: "spec_coprimality_checks ?pf 11"
    by code_simp
  have eqs: "Verify_equalities sum_challenge ?pf 7 15 11 2 3 = Return True"
    by code_simp
  show ?thesis
    using ProofFac_Verify_interval_and_coprimality_checks
        [OF vb(1), of 15 11 sum_challenge "Curve 7" 2 3]
      ProofFac_Verify_interval_and_coprimality_checks
        [OF vb(2), of 15 11 sum_challenge "Curve 7" 2 3]
      vb nc ic cc eqs
    by simp
qed

section \<open>Construction and completeness of the factorization proof\<close>

lemma honest_samples_pos:
  assumes "honest_samples q N0 NCap rnd"
  shows "0 < NCap" "0 < N0" "0 < q"
proof -
  have mu: "0 < 32768 * NCap"
    using assms unfolding honest_samples_def Let_def IsInInterval_def rangeParameter_eq
    by linarith
  then show n: "0 < NCap" by simp
  have "0 < 32768 * NCap * N0"
    using assms unfolding honest_samples_def Let_def IsInInterval_def rangeParameter_eq
    by linarith
  then show n0: "0 < N0" using n by (simp add: zero_less_mult_iff)
  have "0 < 32768 * q * isqrt N0"
    using assms unfolding honest_samples_def Let_def IsInInterval_def rangeParameter_eq
    by linarith
  moreover have "0 \<le> isqrt N0"
    using isqrt_correct [of N0] n0 by simp
  ultimately show "0 < q" by (simp add: zero_less_mult_iff)
qed

lemma honest_samples_nonneg:
  assumes "honest_samples q N0 NCap rnd"
  shows "0 \<le> smp_alpha rnd" "0 \<le> smp_beta rnd" "0 \<le> smp_mu rnd" "0 \<le> smp_nu rnd"
    "0 \<le> smp_sigma rnd" "0 \<le> smp_r rnd" "0 \<le> smp_x rnd" "0 \<le> smp_y rnd"
  using assms by (simp_all add: honest_samples_def Let_def IsInInterval_def)

lemma NewProof_body_nonneg:
  assumes "0 \<le> N0" "0 < NCap" "0 \<le> N0p" "0 \<le> N0q"
    and "0 \<le> smp_alpha rnd" "0 \<le> smp_beta rnd" "0 \<le> smp_mu rnd" "0 \<le> smp_nu rnd"
      "0 \<le> smp_r rnd" "0 \<le> smp_x rnd" "0 \<le> smp_y rnd"
  shows "NewProof_body chal rnd q N0 NCap s t N0p N0q
           = Return (spec_proof chal rnd q N0 NCap s t N0p N0q)"
  unfolding NewProof_body_def spec_proof_def Let_def
  using assms
  by (simp add: big_Sqrt_def ExpMulExp_commitment derive_challenge_Some10)

lemma NewProof_honest:
  assumes "honest_samples q N0 NCap rnd" "0 \<le> N0p" "0 \<le> N0q"
  shows "NewProof chal rnd (Some (Curve q)) (Some N0) (Some NCap) (Some s) (Some t) (Some N0p)
           (Some N0q)
         = Return (Some (spec_proof chal rnd q N0 NCap s t N0p N0q), None)"
  using honest_samples_pos [OF assms(1)] honest_samples_nonneg [OF assms(1)] assms(2,3)
  by (simp add: NewProof_def NewProof_body_nonneg)


lemma commitment_coprime:
  assumes "0 < n" "coprime s n" "coprime t n"
  shows "gcd (commitment n s a t b) n = 1"
proof -
  have "coprime (s ^ nat a * t ^ nat b) n"
    using assms(2,3) by simp
  then have "coprime (commitment n s a t b) n"
    using assms(1) by (simp add: commitment_def)
  then show ?thesis
    by (simp add: coprime_iff_gcd_eq_1)
qed

lemma commitment_coprime':
  assumes "0 < n" "coprime s n" "coprime t n"
  shows "coprime (commitment n s a t b) n"
  using commitment_coprime [OF assms] by (simp add: coprime_iff_gcd_eq_1)

lemma scaled_sum_bound:
  fixes e m x bm q :: int
  assumes "0 \<le> e" "e < q" "0 \<le> m" "m < bm" "x < bm * q"
  shows "e * m + x < push_bit 1 (bm * q)"
proof -
  have "e * m \<le> q * bm"
    using assms(1-4) by (intro mult_mono) simp_all
  then show ?thesis
    using assms(5) by (simp add: push_bit_eq_mult algebra_simps)
qed

lemma strip_mod_power_left:
  fixes n :: int
  shows "(x mod n) ^ k * y mod n = x ^ k * y mod n"
proof -
  have "(x mod n) ^ k * y mod n = ((x mod n) ^ k mod n) * y mod n"
    by (simp only: mod_mult_left_eq)
  also have "\<dots> = (x ^ k mod n) * y mod n"
    by (simp only: power_mod)
  also have "\<dots> = x ^ k * y mod n"
    by (simp only: mod_mult_left_eq)
  finally show ?thesis .
qed

lemma strip_mod_power_right:
  fixes n :: int
  shows "(u mod n) * ((w mod n) ^ k mod n) mod n = u * w ^ k mod n"
  by (simp only: power_mod mod_mult_eq)

lemma power_product:
  fixes s t :: int
  shows "(s ^ a * t ^ b) ^ k = s ^ (a * k) * t ^ (b * k)"
  by (simp only: power_mult_distrib power_mult [symmetric])

lemma response_equality:
  fixes s t n :: int and al x w mu e :: nat
  shows "s ^ (e * w + al) * t ^ (e * mu + x) mod n
           = (s ^ al * t ^ x mod n) * ((s ^ w * t ^ mu mod n) ^ e mod n) mod n"
proof -
  have "s ^ (e * w + al) * t ^ (e * mu + x) = (s ^ al * t ^ x) * (s ^ w * t ^ mu) ^ e"
    by (simp only: power_product power_add mult.commute [of w e] mult.commute [of mu e] mult_ac)
  then show ?thesis
    by (simp only: strip_mod_power_right)
qed

lemma product_equality:
  fixes s t n :: int and al nu r sg v e pp qq :: nat
  assumes "nu * e * pp + v = r + sg * e"
  shows "(s ^ qq * t ^ nu mod n) ^ (e * pp + al) * t ^ v mod n
           = ((s ^ qq * t ^ nu mod n) ^ al * t ^ r mod n)
               * ((s ^ (pp * qq) * t ^ sg mod n) ^ e mod n) mod n"
proof -
  have "(s ^ qq * t ^ nu) ^ k * t ^ v = s ^ (qq * k) * t ^ (nu * k + v)" for k
    by (simp only: power_product power_add mult.assoc)
  then have l: "(s ^ qq * t ^ nu) ^ (e * pp + al) * t ^ v
             = s ^ (qq * (e * pp + al)) * t ^ (nu * (e * pp + al) + v)" .
  have r: "((s ^ qq * t ^ nu) ^ al * t ^ r) * (s ^ (pp * qq) * t ^ sg) ^ e
             = s ^ (qq * al + pp * qq * e) * t ^ (nu * al + r + sg * e)"
    by (simp only: power_product power_add mult_ac)
  have ex1: "qq * (e * pp + al) = qq * al + pp * qq * e"
    by (simp add: algebra_simps)
  have ex2: "nu * (e * pp + al) + v = nu * al + r + sg * e"
    using assms by (simp add: algebra_simps)
  have "(s ^ qq * t ^ nu) ^ (e * pp + al) * t ^ v
          = ((s ^ qq * t ^ nu) ^ al * t ^ r) * (s ^ (pp * qq) * t ^ sg) ^ e"
    by (simp only: l r ex1 ex2)
  then have "(s ^ qq * t ^ nu) ^ (e * pp + al) * t ^ v mod n
          = ((s ^ qq * t ^ nu) ^ al * t ^ r) * (s ^ (pp * qq) * t ^ sg) ^ e mod n"
    by simp
  moreover have "(s ^ qq * t ^ nu mod n) ^ (e * pp + al) * t ^ v mod n
          = (s ^ qq * t ^ nu) ^ (e * pp + al) * t ^ v mod n"
    by (rule strip_mod_power_left)
  moreover have "((s ^ qq * t ^ nu mod n) ^ al * t ^ r mod n)
               * ((s ^ (pp * qq) * t ^ sg mod n) ^ e mod n) mod n
          = ((s ^ qq * t ^ nu) ^ al * t ^ r) * (s ^ (pp * qq) * t ^ sg) ^ e mod n"
    by (simp only: strip_mod_power_right strip_mod_power_left)
  ultimately show ?thesis by simp
qed

lemma commitment_bounds:
  assumes "0 < n"
  shows "commitment n s a t b < n" "0 \<le> commitment n s a t b"
  using assms by (simp_all add: commitment_def)

lemma honest_proof_verification:
  assumes ok: "challenge_ok chal"
    and hs: "honest_samples q N0 NCap rnd"
    and fac: "N0 = N0p * N0q" "0 \<le> N0p" "0 \<le> N0q"
    and cop: "coprime s NCap" "coprime t NCap"
    and pf: "pf = spec_proof chal rnd q N0 NCap s t N0p N0q"
  shows "ProofFac_Verify chal (Some pf) (Some (Curve q)) (Some N0) (Some NCap) (Some s) (Some t)
         = Return (the (Z1 pf) < rangeParameter * q * isqrt N0
                 \<and> the (Z2 pf) < rangeParameter * q * isqrt N0
                 \<and> 0 \<le> the (V pf))"
proof -
  note pos = honest_samples_pos [OF hs]
  note nn = honest_samples_nonneg [OF hs]
  define al be mu nu sg r x y where
    "al = smp_alpha rnd" and "be = smp_beta rnd" and "mu = smp_mu rnd" and "nu = smp_nu rnd"
    and "sg = smp_sigma rnd" and "r = smp_r rnd" and "x = smp_x rnd" and "y = smp_y rnd"
  note smp = al_def be_def mu_def nu_def sg_def r_def x_def y_def
  define p where "p = commitment NCap s N0p t mu"
  define q' where "q' = commitment NCap s N0q t nu"
  define a where "a = commitment NCap s al t x"
  define b where "b = commitment NCap s be t y"
  define t' where "t' = commitment NCap q' al t r"
  define e where "e = chal q [N0, NCap, s, t, p, q', a, b, t', sg]"
  define z1 where "z1 = e * N0p + al"
  define z2 where "z2 = e * N0q + be"
  define w1 where "w1 = e * mu + x"
  define w2 where "w2 = e * nu + y"
  define v where "v = e * (sg - nu * N0p) + r"
  let ?pf = "\<lparr>P = Some p, Q = Some q', A = Some a, B = Some b, T = Some t', Sigma = Some sg,
              Z1 = Some z1, Z2 = Some z2, W1 = Some w1, W2 = Some w2, V = Some v\<rparr>"
  have pf_eq: "pf = ?pf"
    unfolding pf spec_proof_def Let_def
    by (simp add: smp p_def q'_def a_def b_def t'_def e_def z1_def z2_def w1_def w2_def v_def)
  have nn': "0 \<le> al" "0 \<le> be" "0 \<le> mu" "0 \<le> nu" "0 \<le> sg" "0 \<le> r" "0 \<le> x" "0 \<le> y"
    using nn by (simp_all add: smp)
  have e: "0 \<le> e" "e < q"
    using ok pos(3) by (simp_all add: challenge_ok_def e_def)
  have bounds: "mu < rangeParameter * NCap" "nu < rangeParameter * NCap"
    "sg < rangeParameter * NCap * N0" "r < rangeParameter * NCap * N0 * q"
    "x < rangeParameter * NCap * q" "y < rangeParameter * NCap * q"
    using hs by (simp_all add: honest_samples_def Let_def IsInInterval_def smp)
  have w_nn: "0 \<le> w1" "0 \<le> w2"
    using e nn' by (simp_all add: w1_def w2_def)
  have z_nn: "0 \<le> z1" "0 \<le> z2"
    using e nn' fac by (simp_all add: z1_def z2_def)
  have w1_hi: "w1 < push_bit 1 (rangeParameter * NCap * q)"
    unfolding w1_def using e nn' bounds by (intro scaled_sum_bound) simp_all
  have w2_hi: "w2 < push_bit 1 (rangeParameter * NCap * q)"
    unfolding w2_def using e nn' bounds by (intro scaled_sum_bound) simp_all
  have v_hi: "v < push_bit 1 (rangeParameter * NCap * N0 * q)"
  proof -
    have "0 \<le> e * (nu * N0p)"
      using e nn' fac by simp
    then have "v \<le> e * sg + r"
      by (simp add: v_def algebra_simps)
    moreover have "e * sg + r < push_bit 1 (rangeParameter * NCap * N0 * q)"
      using e nn' bounds by (intro scaled_sum_bound) simp_all
    ultimately show ?thesis by linarith
  qed
  have cq: "coprime q' NCap"
    unfolding q'_def using pos(1) cop by (rule commitment_coprime')
  have checks: "Verify_checks ?pf q N0 NCap (isqrt N0)
                  \<longleftrightarrow> z1 < rangeParameter * q * isqrt N0 \<and> z2 < rangeParameter * q * isqrt N0
                       \<and> 0 \<le> v"
    unfolding Verify_checks_iff
    using pos(1) cop cq w_nn z_nn w1_hi w2_hi v_hi nn' bounds
    by (auto simp add: p_def q'_def a_def b_def t'_def commitment_bounds commitment_coprime
          IsInInterval_def)
  have eqs: "Verify_equalities chal ?pf q N0 NCap s t = Return True" if v: "0 \<le> v"
  proof -
    have z1n: "nat z1 = nat e * nat N0p + nat al"
      using e nn' fac by (simp add: z1_def nat_add_distrib nat_mult_distrib)
    have z2n: "nat z2 = nat e * nat N0q + nat be"
      using e nn' fac by (simp add: z2_def nat_add_distrib nat_mult_distrib)
    have w1n: "nat w1 = nat e * nat mu + nat x"
      using e nn' by (simp add: w1_def nat_add_distrib nat_mult_distrib)
    have w2n: "nat w2 = nat e * nat nu + nat y"
      using e nn' by (simp add: w2_def nat_add_distrib nat_mult_distrib)
    have n0n: "nat N0 = nat N0p * nat N0q"
      using fac by (simp add: nat_mult_distrib)
    have "int (nat nu * nat e * nat N0p + nat v) = int (nat r + nat sg * nat e)"
      using e nn' fac v by (simp add: v_def algebra_simps)
    then have vn: "nat nu * nat e * nat N0p + nat v = nat r + nat sg * nat e"
      by (simp only: of_nat_eq_iff)
    have eq1: "s ^ nat z1 * t ^ nat w1 mod NCap = a * (p ^ nat e mod NCap) mod NCap"
      unfolding z1n w1n a_def p_def commitment_def by (rule response_equality)
    have eq2: "s ^ nat z2 * t ^ nat w2 mod NCap = b * (q' ^ nat e mod NCap) mod NCap"
      unfolding z2n w2n b_def q'_def commitment_def by (rule response_equality)
    have eq3: "q' ^ nat z1 * t ^ nat v mod NCap
                 = t' * ((s ^ nat N0 * t ^ nat sg mod NCap) ^ nat e mod NCap) mod NCap"
      unfolding z1n n0n t'_def q'_def commitment_def by (rule product_equality [OF vn])
    have "Verify_equalities chal ?pf q N0 NCap s t
            = Return (s ^ nat z1 * t ^ nat w1 mod NCap = a * (p ^ nat e mod NCap) mod NCap
               \<and> s ^ nat z2 * t ^ nat w2 mod NCap = b * (q' ^ nat e mod NCap) mod NCap
               \<and> q' ^ nat z1 * t ^ nat v mod NCap
                   = t' * ((s ^ nat N0 * t ^ nat sg mod NCap) ^ nat e mod NCap) mod NCap)"
      using Verify_equalities_nonneg [of NCap z1 z2 w1 w2 v sg N0 chal q s t p q' a b t']
        pos z_nn w_nn v nn' e
      by (simp only: Let_def e_def [symmetric] less_imp_le)
    then show ?thesis
      by (simp only: eq1 eq2 eq3 simp_thms)
  qed
  have "ProofFac_Verify chal (Some ?pf) (Some (Curve q)) (Some N0) (Some NCap) (Some s) (Some t)
          = Return (z1 < rangeParameter * q * isqrt N0 \<and> z2 < rangeParameter * q * isqrt N0
                       \<and> 0 \<le> v)"
  proof (cases "Verify_checks ?pf q N0 NCap (isqrt N0)")
    case True
    then have "0 \<le> v" using checks by simp
    then show ?thesis
      using True checks eqs by (simp only: ProofFac_Verify_present [OF pos(2,1)] if_True simp_thms)
  next
    case False
    then show ?thesis
      using checks by (simp only: ProofFac_Verify_present [OF pos(2,1)] if_False simp_thms)
  qed
  then show ?thesis
    by (simp add: pf_eq)
qed




lemma run_alpha_at_top:
  "NewProof sum_challenge
     \<lparr>smp_alpha = 688127, smp_beta = 1, smp_mu = 1, smp_nu = 0, smp_sigma = 1, smp_r = 1,
      smp_x = 1, smp_y = 1\<rparr>
     (Some (Curve 7)) (Some 15) (Some 11) (Some 2) (Some 3) (Some 3) (Some 5)
   = Return (Some \<lparr>P = Some 2, Q = Some 10, A = Some 10, B = Some 6, T = Some 8,
                   Sigma = Some 1, Z1 = Some 688142, Z2 = Some 26, W1 = Some 6, W2 = Some 1,
                   V = Some 6\<rparr>, None)"
proof -
  have pieces:
    "ExpMulExp 11 (Some 2) (Some 3) (Some 3) (Some 1) = Return 2"
    "ExpMulExp 11 (Some 2) (Some 5) (Some 3) (Some 0) = Return 10"
    "ExpMulExp 11 (Some 2) (Some 688127) (Some 3) (Some 1) = Return 10"
    "ExpMulExp 11 (Some 2) (Some 1) (Some 3) (Some 1) = Return 6"
    "ExpMulExp 11 (Some 10) (Some 688127) (Some 3) (Some 1) = Return 8"
    by code_simp+
  show ?thesis
    unfolding NewProof_def NewProof_body_def Let_def
    by (simp add: pieces big_Sqrt_def derive_challenge_Some10 sum_challenge_def)
qed

lemma run_beta_at_top:
  "NewProof sum_challenge
     \<lparr>smp_alpha = 1, smp_beta = 688127, smp_mu = 1, smp_nu = 0, smp_sigma = 1, smp_r = 1,
      smp_x = 1, smp_y = 1\<rparr>
     (Some (Curve 7)) (Some 15) (Some 11) (Some 2) (Some 3) (Some 3) (Some 5)
   = Return (Some \<lparr>P = Some 2, Q = Some 10, A = Some 6, B = Some 10, T = Some 8,
                   Sigma = Some 1, Z1 = Some 16, Z2 = Some 688152, W1 = Some 6, W2 = Some 1,
                   V = Some 6\<rparr>, None)"
proof -
  have pieces:
    "ExpMulExp 11 (Some 2) (Some 3) (Some 3) (Some 1) = Return 2"
    "ExpMulExp 11 (Some 2) (Some 5) (Some 3) (Some 0) = Return 10"
    "ExpMulExp 11 (Some 2) (Some 1) (Some 3) (Some 1) = Return 6"
    "ExpMulExp 11 (Some 2) (Some 688127) (Some 3) (Some 1) = Return 10"
    "ExpMulExp 11 (Some 10) (Some 1) (Some 3) (Some 1) = Return 8"
    by code_simp+
  show ?thesis
    unfolding NewProof_def NewProof_body_def Let_def
    by (simp add: pieces big_Sqrt_def derive_challenge_Some10 sum_challenge_def)
qed

text \<open>
  Claim C1, as the spec states it: for every honest run of the sampler, \<open>Verify\<close> accepts
  the proof that \<open>NewProof\<close> returns. It fails on four honest runs for \<open>N0 = 15 = 3 \<cdot> 5\<close>,
  \<open>NCap = 11\<close> and group order 7: with \<open>alpha\<close> at the top of its range the response \<open>Z1\<close>
  is not below \<open>l\<cdot>q\<cdot>\<surd>N0 = 688128\<close>; with \<open>beta\<close> at the top the same holds for \<open>Z2\<close>; with
  \<open>sigma = 0\<close> and \<open>nu = 1\<close> the response \<open>V\<close> is negative; and with the base \<open>s = 22\<close>, which
  shares the factor 11 with \<open>NCap\<close>, the commitment \<open>P\<close> is 0 and fails its coprimality
  check. In each of them \<open>Verify\<close> returns false.
\<close>

theorem NewProof_Verify_completeness_counterexample:
  "honest_samples 7 15 11
     \<lparr>smp_alpha = 688127, smp_beta = 1, smp_mu = 1, smp_nu = 0, smp_sigma = 1, smp_r = 1,
      smp_x = 1, smp_y = 1\<rparr>
   \<and> NewProof sum_challenge
       \<lparr>smp_alpha = 688127, smp_beta = 1, smp_mu = 1, smp_nu = 0, smp_sigma = 1, smp_r = 1,
        smp_x = 1, smp_y = 1\<rparr>
       (Some (Curve 7)) (Some 15) (Some 11) (Some 2) (Some 3) (Some 3) (Some 5)
     = Return (Some \<lparr>P = Some 2, Q = Some 10, A = Some 10, B = Some 6, T = Some 8,
                     Sigma = Some 1, Z1 = Some 688142, Z2 = Some 26, W1 = Some 6,
                     W2 = Some 1, V = Some 6\<rparr>, None)
   \<and> ProofFac_Verify sum_challenge
       (Some \<lparr>P = Some 2, Q = Some 10, A = Some 10, B = Some 6, T = Some 8, Sigma = Some 1,
               Z1 = Some 688142, Z2 = Some 26, W1 = Some 6, W2 = Some 1, V = Some 6\<rparr>)
       (Some (Curve 7)) (Some 15) (Some 11) (Some 2) (Some 3) = Return False
   \<and> honest_samples 7 15 11
       \<lparr>smp_alpha = 1, smp_beta = 688127, smp_mu = 1, smp_nu = 0, smp_sigma = 1, smp_r = 1,
        smp_x = 1, smp_y = 1\<rparr>
   \<and> NewProof sum_challenge
       \<lparr>smp_alpha = 1, smp_beta = 688127, smp_mu = 1, smp_nu = 0, smp_sigma = 1, smp_r = 1,
        smp_x = 1, smp_y = 1\<rparr>
       (Some (Curve 7)) (Some 15) (Some 11) (Some 2) (Some 3) (Some 3) (Some 5)
     = Return (Some \<lparr>P = Some 2, Q = Some 10, A = Some 6, B = Some 10, T = Some 8,
                     Sigma = Some 1, Z1 = Some 16, Z2 = Some 688152, W1 = Some 6,
                     W2 = Some 1, V = Some 6\<rparr>, None)
   \<and> ProofFac_Verify sum_challenge
       (Some \<lparr>P = Some 2, Q = Some 10, A = Some 6, B = Some 10, T = Some 8, Sigma = Some 1,
               Z1 = Some 16, Z2 = Some 688152, W1 = Some 6, W2 = Some 1, V = Some 6\<rparr>)
       (Some (Curve 7)) (Some 15) (Some 11) (Some 2) (Some 3) = Return False
   \<and> honest_samples 7 15 11
       \<lparr>smp_alpha = 1, smp_beta = 1, smp_mu = 1, smp_nu = 1, smp_sigma = 0, smp_r = 1,
        smp_x = 1, smp_y = 1\<rparr>
   \<and> NewProof sum_challenge
       \<lparr>smp_alpha = 1, smp_beta = 1, smp_mu = 1, smp_nu = 1, smp_sigma = 0, smp_r = 1,
        smp_x = 1, smp_y = 1\<rparr>
       (Some (Curve 7)) (Some 15) (Some 11) (Some 2) (Some 3) (Some 3) (Some 5)
     = Return (Some \<lparr>P = Some 2, Q = Some 8, A = Some 6, B = Some 6, T = Some 2,
                     Sigma = Some 0, Z1 = Some 19, Z2 = Some 31, W1 = Some 7, W2 = Some 7,
                     V = Some (- 17)\<rparr>, None)
   \<and> ProofFac_Verify sum_challenge
       (Some \<lparr>P = Some 2, Q = Some 8, A = Some 6, B = Some 6, T = Some 2, Sigma = Some 0,
               Z1 = Some 19, Z2 = Some 31, W1 = Some 7, W2 = Some 7, V = Some (- 17)\<rparr>)
       (Some (Curve 7)) (Some 15) (Some 11) (Some 2) (Some 3) = Return False
   \<and> honest_samples 7 15 11
       \<lparr>smp_alpha = 1, smp_beta = 1, smp_mu = 1, smp_nu = 0, smp_sigma = 1, smp_r = 1,
        smp_x = 1, smp_y = 1\<rparr>
   \<and> NewProof sum_challenge
       \<lparr>smp_alpha = 1, smp_beta = 1, smp_mu = 1, smp_nu = 0, smp_sigma = 1, smp_r = 1,
        smp_x = 1, smp_y = 1\<rparr>
       (Some (Curve 7)) (Some 15) (Some 11) (Some 22) (Some 3) (Some 3) (Some 5)
     = Return (Some \<lparr>P = Some 0, Q = Some 0, A = Some 0, B = Some 0, T = Some 0,
                     Sigma = Some 1, Z1 = Some 10, Z2 = Some 16, W1 = Some 4, W2 = Some 1,
                     V = Some 4\<rparr>, None)
   \<and> ProofFac_Verify sum_challenge
       (Some \<lparr>P = Some 0, Q = Some 0, A = Some 0, B = Some 0, T = Some 0, Sigma = Some 1,
               Z1 = Some 10, Z2 = Some 16, W1 = Some 4, W2 = Some 1, V = Some 4\<rparr>)
       (Some (Curve 7)) (Some 15) (Some 11) (Some 22) (Some 3) = Return False"
proof (intro conjI)
  show "honest_samples 7 15 11
     \<lparr>smp_alpha = 688127, smp_beta = 1, smp_mu = 1, smp_nu = 0, smp_sigma = 1, smp_r = 1,
      smp_x = 1, smp_y = 1\<rparr>"
    by code_simp
  show "NewProof sum_challenge
       \<lparr>smp_alpha = 688127, smp_beta = 1, smp_mu = 1, smp_nu = 0, smp_sigma = 1, smp_r = 1,
        smp_x = 1, smp_y = 1\<rparr>
       (Some (Curve 7)) (Some 15) (Some 11) (Some 2) (Some 3) (Some 3) (Some 5)
     = Return (Some \<lparr>P = Some 2, Q = Some 10, A = Some 10, B = Some 6, T = Some 8,
                     Sigma = Some 1, Z1 = Some 688142, Z2 = Some 26, W1 = Some 6,
                     W2 = Some 1, V = Some 6\<rparr>, None)"
    by (rule run_alpha_at_top)
  show "ProofFac_Verify sum_challenge
       (Some \<lparr>P = Some 2, Q = Some 10, A = Some 10, B = Some 6, T = Some 8, Sigma = Some 1,
               Z1 = Some 688142, Z2 = Some 26, W1 = Some 6, W2 = Some 1, V = Some 6\<rparr>)
       (Some (Curve 7)) (Some 15) (Some 11) (Some 2) (Some 3) = Return False"
    by code_simp
  show "honest_samples 7 15 11
       \<lparr>smp_alpha = 1, smp_beta = 688127, smp_mu = 1, smp_nu = 0, smp_sigma = 1, smp_r = 1,
        smp_x = 1, smp_y = 1\<rparr>"
    by code_simp
  show "NewProof sum_challenge
       \<lparr>smp_alpha = 1, smp_beta = 688127, smp_mu = 1, smp_nu = 0, smp_sigma = 1, smp_r = 1,
        smp_x = 1, smp_y = 1\<rparr>
       (Some (Curve 7)) (Some 15) (Some 11) (Some 2) (Some 3) (Some 3) (Some 5)
     = Return (Some \<lparr>P = Some 2, Q = Some 10, A = Some 6, B = Some 10, T = Some 8,
                     Sigma = Some 1, Z1 = Some 16, Z2 = Some 688152, W1 = Some 6,
                     W2 = Some 1, V = Some 6\<rparr>, None)"
    by (rule run_beta_at_top)
  show "ProofFac_Verify sum_challenge
       (Some \<lparr>P = Some 2, Q = Some 10, A = Some 6, B = Some 10, T = Some 8, Sigma = Some 1,
               Z1 = Some 16, Z2 = Some 688152, W1 = Some 6, W2 = Some 1, V = Some 6\<rparr>)
       (Some (Curve 7)) (Some 15) (Some 11) (Some 2) (Some 3) = Return False"
    by code_simp
  show "honest_samples 7 15 11
       \<lparr>smp_alpha = 1, smp_beta = 1, smp_mu = 1, smp_nu = 1, smp_sigma = 0, smp_r = 1,
        smp_x = 1, smp_y = 1\<rparr>"
    by code_simp
  show "NewProof sum_challenge
       \<lparr>smp_alpha = 1, smp_beta = 1, smp_mu = 1, smp_nu = 1, smp_sigma = 0, smp_r = 1,
        smp_x = 1, smp_y = 1\<rparr>
       (Some (Curve 7)) (Some 15) (Some 11) (Some 2) (Some 3) (Some 3) (Some 5)
     = Return (Some \<lparr>P = Some 2, Q = Some 8, A = Some 6, B = Some 6, T = Some 2,
                     Sigma = Some 0, Z1 = Some 19, Z2 = Some 31, W1 = Some 7, W2 = Some 7,
                     V = Some (- 17)\<rparr>, None)"
    by code_simp
  show "ProofFac_Verify sum_challenge
       (Some \<lparr>P = Some 2, Q = Some 8, A = Some 6, B = Some 6, T = Some 2, Sigma = Some 0,
               Z1 = Some 19, Z2 = Some 31, W1 = Some 7, W2 = Some 7, V = Some (- 17)\<rparr>)
       (Some (Curve 7)) (Some 15) (Some 11) (Some 2) (Some 3) = Return False"
    by code_simp
  show "honest_samples 7 15 11
       \<lparr>smp_alpha = 1, smp_beta = 1, smp_mu = 1, smp_nu = 0, smp_sigma = 1, smp_r = 1,
        smp_x = 1, smp_y = 1\<rparr>"
    by code_simp
  show "NewProof sum_challenge
       \<lparr>smp_alpha = 1, smp_beta = 1, smp_mu = 1, smp_nu = 0, smp_sigma = 1, smp_r = 1,
        smp_x = 1, smp_y = 1\<rparr>
       (Some (Curve 7)) (Some 15) (Some 11) (Some 22) (Some 3) (Some 3) (Some 5)
     = Return (Some \<lparr>P = Some 0, Q = Some 0, A = Some 0, B = Some 0, T = Some 0,
                     Sigma = Some 1, Z1 = Some 10, Z2 = Some 16, W1 = Some 4, W2 = Some 1,
                     V = Some 4\<rparr>, None)"
    by code_simp
  show "ProofFac_Verify sum_challenge
       (Some \<lparr>P = Some 0, Q = Some 0, A = Some 0, B = Some 0, T = Some 0, Sigma = Some 1,
               Z1 = Some 10, Z2 = Some 16, W1 = Some 4, W2 = Some 1, V = Some 4\<rparr>)
       (Some (Curve 7)) (Some 15) (Some 11) (Some 22) (Some 3) = Return False"
    by code_simp
qed

text \<open>
  Claim C1, amended. For every group order \<open>q\<close>, every modulus \<open>N0 = N0p \<cdot> N0q\<close> with
  non-negative factors, every \<open>NCap\<close> with bases \<open>s\<close> and \<open>t\<close> relatively prime to \<open>NCap\<close>
  and every honest run of the sampler (which needs \<open>q\<close>, \<open>N0\<close> and \<open>NCap\<close> positive),
  \<open>NewProof\<close> returns a proof, and \<open>Verify\<close> on that proof returns true whenever its
  responses satisfy \<open>Z1 < l\<cdot>q\<cdot>\<surd>N0\<close>, \<open>Z2 < l\<cdot>q\<cdot>\<surd>N0\<close> and \<open>V \<ge> 0\<close>, and false otherwise.
\<close>

theorem NewProof_Verify_completeness:
  assumes "challenge_ok chal"
    and "honest_samples q N0 NCap rnd"
    and "N0 = N0p * N0q" "0 \<le> N0p" "0 \<le> N0q"
    and "coprime s NCap" "coprime t NCap"
  shows "\<exists>pf. NewProof chal rnd (Some (Curve q)) (Some N0) (Some NCap) (Some s) (Some t)
               (Some N0p) (Some N0q) = Return (Some pf, None)
             \<and> ProofFac_Verify chal (Some pf) (Some (Curve q)) (Some N0) (Some NCap) (Some s)
                 (Some t)
               = Return (the (Z1 pf) < rangeParameter * q * isqrt N0
                       \<and> the (Z2 pf) < rangeParameter * q * isqrt N0
                       \<and> 0 \<le> the (V pf))"
  using NewProof_honest [OF assms(2,4,5)] honest_proof_verification [OF assms refl]
  by blast

theorem NewProof_Verify_completeness_witness:
  "challenge_ok sum_challenge
   \<and> honest_samples 7 15 11
       \<lparr>smp_alpha = 1, smp_beta = 1, smp_mu = 1, smp_nu = 0, smp_sigma = 0, smp_r = 1,
        smp_x = 1, smp_y = 1\<rparr>
   \<and> (15::int) = 3 * 5 \<and> coprime (2::int) 11 \<and> coprime (3::int) 11
   \<and> NewProof sum_challenge
       \<lparr>smp_alpha = 1, smp_beta = 1, smp_mu = 1, smp_nu = 0, smp_sigma = 0, smp_r = 1,
        smp_x = 1, smp_y = 1\<rparr>
       (Some (Curve 7)) (Some 15) (Some 11) (Some 2) (Some 3) (Some 3) (Some 5)
     = Return (Some \<lparr>P = Some 2, Q = Some 10, A = Some 6, B = Some 6, T = Some 8,
                     Sigma = Some 0, Z1 = Some 1, Z2 = Some 1, W1 = Some 1, W2 = Some 1,
                     V = Some 1\<rparr>, None)
   \<and> ProofFac_Verify sum_challenge
       (Some \<lparr>P = Some 2, Q = Some 10, A = Some 6, B = Some 6, T = Some 8, Sigma = Some 0,
               Z1 = Some 1, Z2 = Some 1, W1 = Some 1, W2 = Some 1, V = Some 1\<rparr>)
       (Some (Curve 7)) (Some 15) (Some 11) (Some 2) (Some 3) = Return True"
proof -
  let ?rnd = "\<lparr>smp_alpha = 1, smp_beta = 1, smp_mu = 1, smp_nu = 0, smp_sigma = 0, smp_r = 1,
               smp_x = 1, smp_y = 1\<rparr>"
  let ?pf = "\<lparr>P = Some 2, Q = Some 10, A = Some 6, B = Some 6, T = Some 8, Sigma = Some 0,
              Z1 = Some 1, Z2 = Some 1, W1 = Some 1, W2 = Some 1, V = Some (1::int)\<rparr>"
  have hs: "honest_samples 7 15 11 ?rnd"
    by code_simp
  have fac: "(15::int) = 3 * 5" "(0::int) \<le> 3" "(0::int) \<le> 5"
    by simp_all
  have g: "gcd (2::int) 11 = 1" "gcd (3::int) 11 = 1"
    by code_simp+
  have cop: "coprime (2::int) 11" "coprime (3::int) 11"
    using g by (simp_all only: coprime_iff_gcd_eq_1)
  have run: "NewProof sum_challenge ?rnd (Some (Curve 7)) (Some 15) (Some 11) (Some 2) (Some 3)
               (Some 3) (Some 5) = Return (Some ?pf, None)"
    by code_simp
  have sq: "isqrt 15 = 3"
    by code_simp
  obtain pf where
    pf: "NewProof sum_challenge ?rnd (Some (Curve 7)) (Some 15) (Some 11) (Some 2) (Some 3)
           (Some 3) (Some 5) = Return (Some pf, None)"
    and ver: "ProofFac_Verify sum_challenge (Some pf) (Some (Curve 7)) (Some 15) (Some 11)
                (Some 2) (Some 3)
              = Return (the (Z1 pf) < rangeParameter * 7 * isqrt 15
                      \<and> the (Z2 pf) < rangeParameter * 7 * isqrt 15 \<and> 0 \<le> the (V pf))"
    using NewProof_Verify_completeness [OF sum_challenge_ok hs fac cop] by blast
  have "pf = ?pf"
    using pf run by simp
  then have "ProofFac_Verify sum_challenge (Some ?pf) (Some (Curve 7)) (Some 15) (Some 11)
               (Some 2) (Some 3) = Return True"
    using ver by (simp add: sq rangeParameter_eq)
  then show ?thesis
    using sum_challenge_ok hs cop run by simp
qed

end
